theory Spec2Isabelle
  imports Complex_Main
begin

section \<open>Numerical data\<close>

text \<open>
  The program (\<^verbatim>\<open>chemtools/topology/qtaim.py\<close>) works on numpy arrays of floats. Floats are
  modelled as \<^typ>\<open>real\<close>: every property below is about control flow, indices and
  comparisons, not about rounding. Where rounding decides the shape of the data, in the
  number of points of an \<^verbatim>\<open>np.arange\<close> grid, the routine is a parameter of the model. A
  point of space (an array of shape \<^verbatim>\<open>(3,)\<close>) is a triple.
\<close>

type_synonym point = "real \<times> real \<times> real"

fun vadd :: "point \<Rightarrow> point \<Rightarrow> point" where
  "vadd (a, b, c) (d, e, f) = (a + d, b + e, c + f)"

fun vsub :: "point \<Rightarrow> point \<Rightarrow> point" where
  "vsub (a, b, c) (d, e, f) = (a - d, b - e, c - f)"

fun vscale :: "real \<Rightarrow> point \<Rightarrow> point" where
  "vscale r (a, b, c) = (r * a, r * b, r * c)"

fun vdiv :: "point \<Rightarrow> real \<Rightarrow> point" where
  "vdiv (a, b, c) r = (a / r, b / r, c / r)"

text \<open>\<^verbatim>\<open>np.linalg.norm\<close> of one point.\<close>

fun vnorm :: "point \<Rightarrow> real" where
  "vnorm (a, b, c) = sqrt (a * a + b * b + c * c)"

text \<open>\<^verbatim>\<open>np.all(np.abs(p - q) < eps)\<close> for two points.\<close>

fun all_close :: "point \<Rightarrow> point \<Rightarrow> real \<Rightarrow> bool" where
  "all_close (a, b, c) (d, e, f) eps \<longleftrightarrow> \<bar>a - d\<bar> < eps \<and> \<bar>b - e\<bar> < eps \<and> \<bar>c - f\<bar> < eps"

text \<open>
  The exceptions of the program, one constructor per raise site (the Python class is
  part of the name), and the exceptions of the interpreter and of numpy. The last
  constructor is not an exception: it marks a run that the code continues with NaN
  values, where this model, whose numbers are reals, stops following it.
\<close>

datatype error =
    RefineTypeError
  | DensCutoffValueError
  | BetaSphereLengthValueError
  | DuplicateMaximaRuntimeError
  | NoConvergenceRuntimeError
  | OdeAssertionError
  | BracketValueError real real real real
  | RootAssertionError
  | IndexError
  | TypeError
  | ValueError
  | OverflowError
  | AttributeError
  | UnboundLocalError
  | QhullError
  | NanOutsideModel

text \<open>A float that may be the sentinel \<^verbatim>\<open>-np.inf\<close> (no beta sphere configured).\<close>

datatype ext_real = NegInf | Fin real

fun less_ext :: "real \<Rightarrow> ext_real \<Rightarrow> bool" where
  "less_ext r NegInf \<longleftrightarrow> False"
| "less_ext r (Fin b) \<longleftrightarrow> r < b"

text \<open>
  Subscripting a list or an array with one integer, as the interpreter does it: an index
  from \<open>-len\<close> to \<open>-1\<close> is taken from the back, one outside \<open>-len .. len - 1\<close> raises.
\<close>

definition py_nth :: "'a list \<Rightarrow> int \<Rightarrow> error + 'a" where
  "py_nth xs i =
     (if 0 \<le> i \<and> i < int (length xs) then Inr (xs ! nat i)
      else if i < 0 \<and> - int (length xs) \<le> i then Inr (xs ! nat (int (length xs) + i))
      else Inl IndexError)"

section \<open>Gradient-flow integrator\<close>

text \<open>
  \<^verbatim>\<open>scipy.integrate.solve_ivp\<close> is an external collaborator: a parameter of the model. It
  receives the right-hand side, the start, the time span, the method, \<^verbatim>\<open>max_step\<close> and
  \<^verbatim>\<open>first_step\<close>, and answers with its \<^verbatim>\<open>success\<close> flag and the trajectory
  \<^verbatim>\<open>sol["y"]\<close> (one point per column). The density and its gradient are given pointwise;
  on an array of points they are mapped over it.
\<close>

datatype ode_method = LSODA | Radau

record ivp_sol =
  sol_success :: bool
  sol_y :: "point list"

type_synonym solve_ivp_t =
  "(real \<Rightarrow> point \<Rightarrow> point) \<Rightarrow> point \<Rightarrow> real \<times> real \<Rightarrow> ode_method \<Rightarrow> real \<Rightarrow> real \<Rightarrow> ivp_sol"

text \<open>
  The \<^verbatim>\<open>while\<close> loop of \<^verbatim>\<open>gradient_path\<close>; the loop state is \<^verbatim>\<open>y0\<close>, \<^verbatim>\<open>t_span\<close> and
  \<^verbatim>\<open>numb_times\<close>. The fuel bounds the number of times the loop condition is evaluated;
  \<open>None\<close> means the loop has not finished within the fuel. The result \<open>Inr None\<close> is
  Python's implicit \<^verbatim>\<open>return None\<close> after the loop. The message of the \<^verbatim>\<open>RuntimeError\<close>
  after the loop reads \<^verbatim>\<open>sol\<close>, which is unbound when the body has never run: the counter
  is then still 0, and the interpreter raises \<^verbatim>\<open>UnboundLocalError\<close> instead.
\<close>

fun gradient_path_loop ::
  "nat \<Rightarrow> solve_ivp_t \<Rightarrow> (point \<Rightarrow> point) \<Rightarrow> ode_method \<Rightarrow> real \<Rightarrow> real \<Rightarrow> int \<Rightarrow> real \<Rightarrow>
   ext_real \<Rightarrow> point option \<Rightarrow> point \<Rightarrow> real \<times> real \<Rightarrow> int \<Rightarrow> (error + point option) option" where
  "gradient_path_loop 0 solve_ivp grad_func method max_step t_inc max_tries first_step
     beta_sphere_maxima maxima y0 t_span numb_times = None"
| "gradient_path_loop (Suc fuel) solve_ivp grad_func method max_step t_inc max_tries first_step
     beta_sphere_maxima maxima y0 t_span numb_times =
     (if numb_times < max_tries then
        (let sol = solve_ivp (\<lambda>t x. grad_func x) y0 t_span method max_step first_step in
         if \<not> sol_success sol then Some (Inl OdeAssertionError)
         else if length (sol_y sol) < 2 then Some (Inl IndexError)
         else
           (let y_prev = sol_y sol ! (length (sol_y sol) - 2);
                y_last = sol_y sol ! (length (sol_y sol) - 1) in
            if all_close y_prev y_last 0.01 then Some (Inr (Some y_last))
            else if beta_sphere_maxima \<noteq> NegInf then
              (case maxima of
                 None \<Rightarrow> Some (Inl TypeError)
               | Some m \<Rightarrow>
                   if less_ext (vnorm (vsub y_last m)) beta_sphere_maxima
                   then Some (Inr (Some y_last))
                   else gradient_path_loop fuel solve_ivp grad_func method max_step t_inc
                          max_tries first_step beta_sphere_maxima maxima y0 t_span numb_times)
            else gradient_path_loop fuel solve_ivp grad_func method max_step t_inc max_tries
                   first_step beta_sphere_maxima maxima y_last
                   (snd t_span, snd t_span + t_inc) (numb_times + 1)))
      else if numb_times = max_tries then
        (if numb_times = 0 then Some (Inl UnboundLocalError)
         else Some (Inl NoConvergenceRuntimeError))
      else Some (Inr None))"

definition gradient_path ::
  "nat \<Rightarrow> solve_ivp_t \<Rightarrow> point \<Rightarrow> (point \<Rightarrow> point) \<Rightarrow> real \<times> real \<Rightarrow> ode_method \<Rightarrow> real \<Rightarrow> real \<Rightarrow>
   int \<Rightarrow> real \<Rightarrow> ext_real \<Rightarrow> point option \<Rightarrow> (error + point option) option" where
  "gradient_path fuel solve_ivp pt grad_func t_span method max_step t_inc max_tries first_step
     beta_sphere_maxima maxima =
     gradient_path_loop fuel solve_ivp grad_func method max_step t_inc max_tries first_step
       beta_sphere_maxima maxima pt t_span 0"

section \<open>Isosurface root-finder\<close>

text \<open>
  \<^verbatim>\<open>scipy.optimize.root_scalar\<close> (method toms748) is a parameter as well: it receives the
  function, the bracket and \<^verbatim>\<open>xtol\<close>, and answers with its \<^verbatim>\<open>converged\<close> flag and the root.
\<close>

record root_sol =
  root_converged :: bool
  root_value :: real

type_synonym root_scalar_t = "(real \<Rightarrow> real) \<Rightarrow> real \<times> real \<Rightarrow> real \<Rightarrow> root_sol"

text \<open>The two bracket radii of \<^verbatim>\<open>solve_for_isosurface_pt\<close>, as its first two statements read.\<close>

definition iso_l_bnd :: "int \<Rightarrow> real list \<Rightarrow> error + real" where
  "iso_l_bnd index_iso rad_pts =
     (if index_iso \<ge> 0 then py_nth rad_pts (index_iso - 1)
      else (case py_nth rad_pts index_iso of Inl e \<Rightarrow> Inl e | Inr r \<Rightarrow> Inr (r / 2)))"

definition iso_u_bnd :: "int \<Rightarrow> real list \<Rightarrow> error + real" where
  "iso_u_bnd index_iso rad_pts =
     (if index_iso + 1 < int (length rad_pts) then py_nth rad_pts (index_iso + 1)
      else (case py_nth rad_pts index_iso of Inl e \<Rightarrow> Inl e | Inr r \<Rightarrow> Inr (r * 2)))"

definition solve_for_isosurface_pt ::
  "root_scalar_t \<Rightarrow> int \<Rightarrow> real list \<Rightarrow> point \<Rightarrow> point \<Rightarrow> (point \<Rightarrow> real) \<Rightarrow> real \<Rightarrow> real \<Rightarrow>
   error + point" where
  "solve_for_isosurface_pt root_scalar index_iso rad_pts maxima cart_sphere_pt density_func
     iso_val iso_err =
     (case iso_l_bnd index_iso rad_pts of
        Inl e \<Rightarrow> Inl e
      | Inr l_bnd \<Rightarrow>
          (case iso_u_bnd index_iso rad_pts of
             Inl e \<Rightarrow> Inl e
           | Inr u_bnd \<Rightarrow>
               (let dens_l_bnd = density_func (vadd maxima (vscale l_bnd cart_sphere_pt));
                    dens_u_bnd = density_func (vadd maxima (vscale u_bnd cart_sphere_pt)) in
                if iso_val < dens_u_bnd \<or> dens_l_bnd < iso_val
                then Inl (BracketValueError l_bnd u_bnd dens_l_bnd dens_u_bnd)
                else
                  (let sol = root_scalar
                         (\<lambda>t. density_func (vadd maxima (vscale t cart_sphere_pt)) - iso_val)
                         (l_bnd, u_bnd) iso_err in
                   if \<not> root_converged sol then Inl RootAssertionError
                   else Inr (vadd maxima (vscale (root_value sol) cart_sphere_pt))))))"

section \<open>Ray tracer\<close>

text \<open>\<^verbatim>\<open>np.diff\<close> and \<^verbatim>\<open>np.mean\<close> (\<open>None\<close> is the NaN of an empty mean).\<close>

definition np_diff :: "real list \<Rightarrow> real list" where
  "np_diff xs = map (\<lambda>(a, b). b - a) (zip xs (tl xs))"

definition np_mean :: "real list \<Rightarrow> real option" where
  "np_mean xs = (if xs = [] then None else Some (sum_list xs / real (length xs)))"

text \<open>
  \<^verbatim>\<open>np.arange(start, stop, step)\<close> is a parameter of the model, like the routines of
  scipy: numpy computes the number of grid points, \<open>\<lceil>(stop - start) / step\<rceil>\<close>, in double
  precision, and a quotient within rounding of a whole number lands on either side of
  it, so the grid is not a function of the real numbers that the model computes with.
  The parameter receives \<open>start\<close>, \<open>stop\<close> and \<open>step\<close> and answers with the grid or with
  the exception that numpy raises.
\<close>

type_synonym arange_t = "real \<Rightarrow> real \<Rightarrow> real \<Rightarrow> error + real list"

text \<open>The first index whose element satisfies a predicate: \<^verbatim>\<open>np.where(cond)[0][0]\<close>.\<close>

fun first_index :: "('a \<Rightarrow> bool) \<Rightarrow> 'a list \<Rightarrow> nat option" where
  "first_index P [] = None"
| "first_index P (x # xs) = (if P x then Some 0 else map_option Suc (first_index P xs))"

text \<open>
  \<^verbatim>\<open>np.argsort(xs)[0]\<close>: an index of a least element; where several elements are least,
  the model takes the first of them.
\<close>

definition argmin_first :: "real list \<Rightarrow> nat option" where
  "argmin_first xs = first_index (\<lambda>x. list_all (\<lambda>y. x \<le> y) xs) xs"

text \<open>
  \<^verbatim>\<open>np.any(dist_maxima < beta_sphere_others)\<close>: the second operand is the scalar \<^verbatim>\<open>-np.inf\<close>
  (\<open>None\<close>) or a list, compared element by element under numpy's broadcasting.
\<close>

definition any_less_beta :: "real list \<Rightarrow> real list option \<Rightarrow> error + bool" where
  "any_less_beta dist_maxima beta_sphere_others =
     (case beta_sphere_others of
        None \<Rightarrow> Inr False
      | Some bs \<Rightarrow>
          if length bs = length dist_maxima
          then Inr (list_ex (\<lambda>(d, b). d < b) (zip dist_maxima bs))
          else if length bs = 1 then Inr (list_ex (\<lambda>d. d < hd bs) dist_maxima)
          else if length dist_maxima = 1 then Inr (list_ex (\<lambda>b. hd dist_maxima < b) bs)
          else Inl ValueError)"

text \<open>The local variables of \<^verbatim>\<open>solve_for_basin_bnd_pt\<close> that its loops assign.\<close>

record ray_state =
  st_rad_pts :: "real list"
  st_ss_ray :: "real option"
  st_index_iso :: "int option"
  st_bnd_pt :: "point option"
  st_is_ray_to_inf :: bool
  st_found_watershed_on_ray :: bool
  st_basin_id :: "int option"

text \<open>
  One pass through the body of \<^verbatim>\<open>for i_ray, pt in enumerate(ray)\<close>. The result is the new
  state and whether the body left the loop with \<^verbatim>\<open>break\<close>. The loop calls the body for
  the indices of \<open>ray\<close> only, and \<open>ray\<close>, \<open>ray_density\<close> and the radial grid of the state
  have the same length during a pass, so the subscripts \<open>! i_ray\<close> are in range; the
  subscript \<^verbatim>\<open>ray[i_ray - 1]\<close> goes through \<open>py_nth\<close>, since it wraps around at index 0.
  A NaN step (\<open>None\<close>) makes \<^verbatim>\<open>np.arange\<close> raise \<^verbatim>\<open>ValueError\<close>; with any other step
  the grid is the answer of the parameter \<open>arange\<close>.
\<close>

definition ray_step ::
  "nat \<Rightarrow> solve_ivp_t \<Rightarrow> arange_t \<Rightarrow> real \<Rightarrow> point \<Rightarrow> (point \<Rightarrow> point) \<Rightarrow> point list \<Rightarrow> real \<Rightarrow> ext_real \<Rightarrow>
   real list option \<Rightarrow> point list \<Rightarrow> real list \<Rightarrow> ray_state \<Rightarrow> nat \<Rightarrow>
   (error + ray_state \<times> bool) option" where
  "ray_step fuel solve_ivp arange dens_cutoff maxima grad_func other_maximas bnd_err
     beta_sphere_maxima beta_sphere_others ray ray_density st i_ray =
     (if ray_density ! i_ray > dens_cutoff then
        (case gradient_path fuel solve_ivp (ray ! i_ray) grad_func
                (0, max (1000 * (st_rad_pts st ! i_ray)) 75) LSODA 50 200 10 0.001
                beta_sphere_maxima (Some maxima) of
           None \<Rightarrow> None
         | Some (Inl e) \<Rightarrow> Some (Inl e)
         | Some (Inr None) \<Rightarrow> Some (Inl TypeError)
         | Some (Inr (Some y_val)) \<Rightarrow>
             (let dist_maxima = map (\<lambda>m. vnorm (vsub y_val m)) other_maximas in
              case (if list_ex (\<lambda>d. d < 0.1) dist_maxima then Inr True
                    else any_less_beta dist_maxima beta_sphere_others) of
                Inl e \<Rightarrow> Some (Inl e)
              | Inr True \<Rightarrow>
                  (case py_nth ray (int i_ray - 1) of
                     Inl e \<Rightarrow> Some (Inl e)
                   | Inr prev \<Rightarrow>
                       (let dist = vnorm (vsub (ray ! i_ray) prev) in
                        if dist < bnd_err then
                          (case first_index (\<lambda>d. d < 0.1) dist_maxima of
                             None \<Rightarrow> Some (Inl IndexError)
                           | Some k \<Rightarrow>
                               Some (Inr (st\<lparr>st_found_watershed_on_ray := True,
                                              st_bnd_pt := Some (vdiv (vadd (ray ! i_ray) prev) 2),
                                              st_basin_id := Some (int k + 1)\<rparr>, True)))
                        else
                          (let l_bnd = (if i_ray \<noteq> 0 then vnorm (vsub prev maxima) else 0.001);
                               u_bnd = vnorm (vsub (ray ! i_ray) maxima) in
                           case st_ss_ray st of
                             None \<Rightarrow> Some (Inl ValueError)
                           | Some ss \<Rightarrow>
                               (case arange l_bnd (u_bnd + ss / 10) (ss / 10) of
                                  Inl e \<Rightarrow> Some (Inl e)
                                | Inr finer \<Rightarrow>
                                    Some (Inr (st\<lparr>st_ss_ray := Some (ss / 10),
                                                   st_rad_pts := finer\<rparr>, True))))))
              | Inr False \<Rightarrow>
                  Some (Inr (st\<lparr>st_is_ray_to_inf :=
                                   (if i_ray = length ray - 1 then True
                                    else st_is_ray_to_inf st)\<rparr>, False))))
      else Some (Inr (st\<lparr>st_is_ray_to_inf := True, st_index_iso := Some (int i_ray)\<rparr>, True)))"

text \<open>The \<^verbatim>\<open>for\<close> loop over the ray samples still to visit.\<close>

fun ray_for ::
  "nat \<Rightarrow> solve_ivp_t \<Rightarrow> arange_t \<Rightarrow> real \<Rightarrow> point \<Rightarrow> (point \<Rightarrow> point) \<Rightarrow> point list \<Rightarrow> real \<Rightarrow> ext_real \<Rightarrow>
   real list option \<Rightarrow> point list \<Rightarrow> real list \<Rightarrow> nat list \<Rightarrow> ray_state \<Rightarrow>
   (error + ray_state) option" where
  "ray_for fuel solve_ivp arange dens_cutoff maxima grad_func other_maximas bnd_err
     beta_sphere_maxima beta_sphere_others ray ray_density [] st = Some (Inr st)"
| "ray_for fuel solve_ivp arange dens_cutoff maxima grad_func other_maximas bnd_err
     beta_sphere_maxima beta_sphere_others ray ray_density (i_ray # rest) st =
     (case ray_step fuel solve_ivp arange dens_cutoff maxima grad_func other_maximas bnd_err
             beta_sphere_maxima beta_sphere_others ray ray_density st i_ray of
        None \<Rightarrow> None
      | Some (Inl e) \<Rightarrow> Some (Inl e)
      | Some (Inr (st', brk)) \<Rightarrow>
          if brk then Some (Inr st')
          else ray_for fuel solve_ivp arange dens_cutoff maxima grad_func other_maximas bnd_err
                 beta_sphere_maxima beta_sphere_others ray ray_density rest st')"

text \<open>
  The \<^verbatim>\<open>while not found_watershed_on_ray\<close> loop. It has no bound of its own: the fuel
  bounds the number of passes, and \<open>None\<close> means the loop has not finished. Every pass
  starts by printing \<^verbatim>\<open>ray[0]\<close> and \<^verbatim>\<open>ray[-1]\<close>, which raises \<^verbatim>\<open>IndexError\<close> on an empty
  radial grid.
\<close>

fun basin_bnd_loop ::
  "nat \<Rightarrow> solve_ivp_t \<Rightarrow> arange_t \<Rightarrow> real \<Rightarrow> point \<Rightarrow> point \<Rightarrow> (point \<Rightarrow> real) \<Rightarrow> (point \<Rightarrow> point) \<Rightarrow>
   point list \<Rightarrow> real \<Rightarrow> real \<Rightarrow> ext_real \<Rightarrow> real list option \<Rightarrow> ray_state \<Rightarrow>
   (error + ray_state) option" where
  "basin_bnd_loop 0 solve_ivp arange dens_cutoff maxima cart_sphere_pt density_func grad_func
     other_maximas bnd_err iso_val beta_sphere_maxima beta_sphere_others st = None"
| "basin_bnd_loop (Suc fuel) solve_ivp arange dens_cutoff maxima cart_sphere_pt density_func grad_func
     other_maximas bnd_err iso_val beta_sphere_maxima beta_sphere_others st =
     (if \<not> st_found_watershed_on_ray st then
        (let ray = map (\<lambda>r. vadd maxima (vscale r cart_sphere_pt)) (st_rad_pts st);
             ray_density = map density_func ray in
         if ray = [] then Some (Inl IndexError)
         else
         case ray_for (Suc fuel) solve_ivp arange dens_cutoff maxima grad_func other_maximas bnd_err
                beta_sphere_maxima beta_sphere_others ray ray_density [0..<length ray] st of
           None \<Rightarrow> None
         | Some (Inl e) \<Rightarrow> Some (Inl e)
         | Some (Inr st') \<Rightarrow>
             if st_is_ray_to_inf st' then
               (case argmin_first (map (\<lambda>d. \<bar>d - iso_val\<bar>) ray_density) of
                  None \<Rightarrow> Some (Inl IndexError)
                | Some k \<Rightarrow> Some (Inr (st'\<lparr>st_index_iso := Some (int k)\<rparr>)))
             else basin_bnd_loop fuel solve_ivp arange dens_cutoff maxima cart_sphere_pt density_func
                    grad_func other_maximas bnd_err iso_val beta_sphere_maxima
                    beta_sphere_others st')
      else Some (Inr st))"

text \<open>
  \<^verbatim>\<open>solve_for_basin_bnd_pt\<close>; the returned state holds the five values of the source's
  result tuple.
\<close>

definition solve_for_basin_bnd_pt ::
  "nat \<Rightarrow> solve_ivp_t \<Rightarrow> arange_t \<Rightarrow> real \<Rightarrow> point \<Rightarrow> real list \<Rightarrow> point \<Rightarrow> (point \<Rightarrow> real) \<Rightarrow>
   (point \<Rightarrow> point) \<Rightarrow> point list \<Rightarrow> real \<Rightarrow> real \<Rightarrow> ext_real \<Rightarrow> real list option \<Rightarrow>
   (error + ray_state) option" where
  "solve_for_basin_bnd_pt fuel solve_ivp arange dens_cutoff maxima radial cart_sphere_pt density_func
     grad_func other_maximas bnd_err iso_val beta_sphere_maxima beta_sphere_others =
     basin_bnd_loop fuel solve_ivp arange dens_cutoff maxima cart_sphere_pt density_func grad_func
       other_maximas bnd_err iso_val beta_sphere_maxima beta_sphere_others
       \<lparr>st_rad_pts = radial, st_ss_ray = np_mean (np_diff radial), st_index_iso = None,
        st_bnd_pt = None, st_is_ray_to_inf = False, st_found_watershed_on_ray = False,
        st_basin_id = None\<rparr>"

section \<open>Maxima locator\<close>

text \<open>
  The list comprehension of \<^verbatim>\<open>_optimize_centers\<close>: one \<^verbatim>\<open>gradient_path\<close> call per seed, with
  the keyword arguments of the source and the defaults \<^verbatim>\<open>t_inc=200\<close>, \<^verbatim>\<open>max_tries=10\<close>,
  \<^verbatim>\<open>beta_sphere_maxima=-np.inf\<close>, \<^verbatim>\<open>maxima=None\<close>.
\<close>

fun refine_centers ::
  "nat \<Rightarrow> solve_ivp_t \<Rightarrow> (point \<Rightarrow> point) \<Rightarrow> point list \<Rightarrow> (error + point list) option" where
  "refine_centers fuel solve_ivp grad_func [] = Some (Inr [])"
| "refine_centers fuel solve_ivp grad_func (x # centers) =
     (case gradient_path fuel solve_ivp x grad_func (0, 10) Radau 0.01 200 10 0.000000001
             NegInf None of
        None \<Rightarrow> None
      | Some (Inl e) \<Rightarrow> Some (Inl e)
      | Some (Inr None) \<Rightarrow> Some (Inl TypeError)
      | Some (Inr (Some m)) \<Rightarrow>
          (case refine_centers fuel solve_ivp grad_func centers of
             None \<Rightarrow> None
           | Some (Inl e) \<Rightarrow> Some (Inl e)
           | Some (Inr ms) \<Rightarrow> Some (Inr (m # ms))))"

text \<open>
  \<^verbatim>\<open>cdist(maximas, maximas)\<close> with its diagonal overwritten by 1. Without any seed the
  array of maxima is one-dimensional and \<^verbatim>\<open>cdist\<close> raises.
\<close>

definition distance_entry :: "point list \<Rightarrow> nat \<Rightarrow> nat \<Rightarrow> real" where
  "distance_entry maximas i j = (if i = j then 1 else vnorm (vsub (maximas ! i) (maximas ! j)))"

definition has_duplicates :: "point list \<Rightarrow> bool" where
  "has_duplicates maximas \<longleftrightarrow>
     list_ex (\<lambda>i. list_ex (\<lambda>j. distance_entry maximas i j < 0.00000001) [0..<length maximas])
       [0..<length maximas]"

definition optimize_centers_fn ::
  "nat \<Rightarrow> solve_ivp_t \<Rightarrow> point list \<Rightarrow> (point \<Rightarrow> point) \<Rightarrow> (error + point list) option" where
  "optimize_centers_fn fuel solve_ivp centers grad_func =
     (case refine_centers fuel solve_ivp grad_func centers of
        None \<Rightarrow> None
      | Some (Inl e) \<Rightarrow> Some (Inl e)
      | Some (Inr maximas) \<Rightarrow>
          if maximas = [] then Some (Inl ValueError)
          else if has_duplicates maximas then Some (Inl DuplicateMaximaRuntimeError)
          else Some (Inr maximas))"

section \<open>Surface refiner\<close>

text \<open>
  \<^verbatim>\<open>scipy.spatial.ConvexHull\<close> is a parameter: it maps a point set to the points at its
  hull's vertices (\<^verbatim>\<open>hull.points[hull.vertices]\<close>) or raises. The seven candidates of one
  IAS vertex follow the source line by line. A candidate that coincides with the maximum
  has norm 0, and numpy makes its direction NaN without raising: what the code does with
  that direction depends on the caller's density at NaN, and the model ends the run
  with \<open>NanOutsideModel\<close>.
\<close>

definition seven_points :: "point \<Rightarrow> point \<Rightarrow> point \<Rightarrow> point \<Rightarrow> error + point list" where
  "seven_points maxima pt_ias pt1 pt2 =
     (let midpoint = vdiv (vadd (vadd pt1 pt2) pt_ias) 3;
          line_pt1 = vdiv (vadd pt1 pt_ias) 2;
          line_pt2 = vdiv (vadd pt2 pt_ias) 2;
          line_pt3 = vdiv (vadd pt1 pt2) 2;
          poly_pt1 = vdiv (vadd (vadd (vadd midpoint line_pt1) line_pt2) pt_ias) 4;
          poly_pt2 = vdiv (vadd (vadd (vadd midpoint line_pt1) line_pt3) pt1) 4;
          poly_pt3 = vdiv (vadd (vadd (vadd midpoint line_pt2) line_pt3) pt2) 4;
          new_pts = [midpoint, line_pt1, line_pt2, line_pt3, poly_pt1, poly_pt2, poly_pt3]
      in if list_ex (\<lambda>p. vnorm (vsub p maxima) = 0) new_pts then Inl NanOutsideModel
         else Inr (map (\<lambda>p. vdiv (vsub p maxima) (vnorm (vsub p maxima))) new_pts))"

fun hull_candidates :: "point \<Rightarrow> point list \<Rightarrow> point list \<Rightarrow> error + point list" where
  "hull_candidates maxima oas_bnd [] = Inr []"
| "hull_candidates maxima oas_bnd (pt_ias # ias_bnd) =
     (let dists = map (\<lambda>q. vnorm (vsub pt_ias q)) oas_bnd;
          two_indices = take 2 (sort_key (\<lambda>j. dists ! j) [0..<length dists])
      in if length two_indices < 2 then Inl IndexError
         else
           (case seven_points maxima pt_ias (oas_bnd ! (two_indices ! 0))
                   (oas_bnd ! (two_indices ! 1)) of
              Inl e \<Rightarrow> Inl e
            | Inr directions \<Rightarrow>
                (case hull_candidates maxima oas_bnd ias_bnd of
                   Inl e \<Rightarrow> Inl e
                 | Inr others \<Rightarrow> Inr (directions @ others))))"

definition construct_points_between_ias_and_oas ::
  "(point list \<Rightarrow> error + point list) \<Rightarrow> nat list \<Rightarrow> nat list \<Rightarrow> point list \<Rightarrow> real list \<Rightarrow>
   point \<Rightarrow> error + point list" where
  "construct_points_between_ias_and_oas hull_vertices ias oas angular_pts r_func_max maxima =
     (let ias_pts = map (\<lambda>i. vadd maxima (vscale (r_func_max ! i) (angular_pts ! i))) ias;
          oas_pts = map (\<lambda>i. vadd maxima (vscale (r_func_max ! i) (angular_pts ! i))) oas
      in case hull_vertices ias_pts of
           Inl e \<Rightarrow> Inl e
         | Inr ias_bnd \<Rightarrow>
             (case hull_vertices oas_pts of
                Inl e \<Rightarrow> Inl e
              | Inr oas_bnd \<Rightarrow> hull_candidates maxima oas_bnd ias_bnd))"

section \<open>Surface model and top-level construction\<close>

text \<open>
  The dynamically typed arguments: \<^verbatim>\<open>refine\<close> is a bool, an int or something else;
  \<^verbatim>\<open>angular\<close> is an int (a degree for the external \<^verbatim>\<open>AngularGrid\<close>) or an array of points.
  \<^verbatim>\<open>SurfaceQTAIM.angular_degs\<close> is what \<^verbatim>\<open>qtaim_surface\<close> stores (its \<^verbatim>\<open>angular\<close>) or a Python
  list of degrees. \<^verbatim>\<open>SurfaceQTAIM.r_func\<close> is a Python list of arrays (what
  \<^verbatim>\<open>qtaim_surface\<close> builds, and what the comment of the property documents) or a
  two-dimensional array.
\<close>

datatype refine_arg = RefineBool bool | RefineInt int | RefineOther

datatype angular_arg = AngularDegree int | AngularPoints "point list"

datatype angular_degs = DegsOf angular_arg | DegsList "int list"

datatype r_func_val = RFuncList "real list list" | RFuncArray "real list list"

record surface_qtaim =
  sq_r_func :: r_func_val
  sq_rad_grids :: "real list list"
  sq_angular_degs :: angular_degs
  sq_maximas :: "point list"
  sq_oas :: "nat list list"
  sq_ias :: "nat list list"
  sq_basins_ias :: "int option list list"
  sq_refined_ang :: "point list list option"

text \<open>\<^verbatim>\<open>r_func[i]\<close>: one row, for a list as for an array.\<close>

fun r_func_row :: "r_func_val \<Rightarrow> nat \<Rightarrow> real list" where
  "r_func_row (RFuncList rows) i = rows ! i"
| "r_func_row (RFuncArray rows) i = rows ! i"

record qtaim_args =
  qa_rgrids :: "real list"
  qa_angular :: angular_arg
  qa_centers :: "point list"
  qa_density_func :: "point \<Rightarrow> real"
  qa_grad_func :: "point \<Rightarrow> point"
  qa_iso_val :: real
  qa_dens_cutoff :: real
  qa_bnd_err :: real
  qa_iso_err :: real
  qa_beta_sphere :: "real list option"
  qa_optimize_centers :: bool
  qa_refine :: refine_arg

text \<open>The external collaborators.\<close>

record externals =
  ext_solve_ivp :: solve_ivp_t
  ext_root_scalar :: root_scalar_t
  ext_arange :: arange_t
  ext_angular_grid :: "int \<Rightarrow> point list"
  ext_hull_vertices :: "point list \<Rightarrow> error + point list"

text \<open>The lists that \<^verbatim>\<open>qtaim_surface\<close> fills while it loops.\<close>

record surf_state =
  ss_r_func :: "real list list"
  ss_oas :: "nat list list"
  ss_ias :: "nat list list"
  ss_basin_ias :: "int option list list"
  ss_refined_ang :: "point list list option"

text \<open>\<^verbatim>\<open>i_maxima in maxima_to_do\<close> and the truth value of \<^verbatim>\<open>refine\<close>.\<close>

fun in_maxima_to_do :: "refine_arg \<Rightarrow> nat \<Rightarrow> nat \<Rightarrow> bool" where
  "in_maxima_to_do (RefineBool b) numb_maximas i_maxima \<longleftrightarrow> i_maxima < numb_maximas"
| "in_maxima_to_do (RefineInt k) numb_maximas i_maxima \<longleftrightarrow> int i_maxima = k"
| "in_maxima_to_do RefineOther numb_maximas i_maxima \<longleftrightarrow> False"

fun refine_truthy :: "refine_arg \<Rightarrow> bool" where
  "refine_truthy (RefineBool b) \<longleftrightarrow> b"
| "refine_truthy (RefineInt k) \<longleftrightarrow> k \<noteq> 0"
| "refine_truthy RefineOther \<longleftrightarrow> True"

text \<open>\<^verbatim>\<open>np.delete(maximas, i_maxima, axis=0)\<close>.\<close>

definition np_delete :: "'a list \<Rightarrow> nat \<Rightarrow> 'a list" where
  "np_delete xs i = take i xs @ drop (Suc i) xs"

text \<open>The body of \<^verbatim>\<open>for i_ang in range(0, numb_ang_pts)\<close>.\<close>

definition ang_step ::
  "nat \<Rightarrow> externals \<Rightarrow> qtaim_args \<Rightarrow> point list \<Rightarrow> nat \<Rightarrow> point \<Rightarrow> point list \<Rightarrow> ext_real \<Rightarrow>
   real list option \<Rightarrow> surf_state \<Rightarrow> nat \<Rightarrow> (error + surf_state) option" where
  "ang_step fuel ext args angular_pts i_maxima maxima other_maximas beta_sph_max other_beta_sph
     st i_ang =
     (let cart_sphere_pt = angular_pts ! i_ang;
          radial = (case qa_beta_sphere args of
                      None \<Rightarrow> qa_rgrids args
                    | Some bs \<Rightarrow> filter (\<lambda>r. r > bs ! i_maxima) (qa_rgrids args))
      in case solve_for_basin_bnd_pt fuel (ext_solve_ivp ext) (ext_arange ext)
                (qa_dens_cutoff args) maxima radial cart_sphere_pt (qa_density_func args) (qa_grad_func args) other_maximas
                (qa_bnd_err args) (qa_iso_val args) beta_sph_max other_beta_sph of
           None \<Rightarrow> None
         | Some (Inl e) \<Rightarrow> Some (Inl e)
         | Some (Inr res) \<Rightarrow>
             (case (if st_is_ray_to_inf res then
                      (case st_index_iso res of
                         None \<Rightarrow> Inl TypeError
                       | Some i_iso \<Rightarrow>
                           (case solve_for_isosurface_pt (ext_root_scalar ext) i_iso radial maxima
                                   cart_sphere_pt (qa_density_func args) (qa_iso_val args)
                                   (qa_iso_err args) of
                              Inl e \<Rightarrow> Inl e
                            | Inr p \<Rightarrow> Inr (Some p)))
                    else Inr (st_bnd_pt res)) of
                Inl e \<Rightarrow> Some (Inl e)
              | Inr None \<Rightarrow> Some (Inl TypeError)
              | Inr (Some bnd_pt) \<Rightarrow>
                  (let st1 = st\<lparr>ss_r_func := (ss_r_func st)
                               [i_maxima := (ss_r_func st ! i_maxima)
                                  [i_ang := vnorm (vsub bnd_pt maxima)]]\<rparr>
                   in if st_is_ray_to_inf res then
                        Some (Inr (st1\<lparr>ss_oas := (ss_oas st1)
                                [i_maxima := ss_oas st1 ! i_maxima @ [i_ang]]\<rparr>))
                      else if st_found_watershed_on_ray res then
                        Some (Inr (st1\<lparr>ss_ias := (ss_ias st1)
                                [i_maxima := ss_ias st1 ! i_maxima @ [i_ang]],
                              ss_basin_ias := (ss_basin_ias st1)
                                [i_maxima := ss_basin_ias st1 ! i_maxima @ [st_basin_id res]]\<rparr>))
                      else Some (Inr st1))))"

fun for_ang ::
  "nat \<Rightarrow> externals \<Rightarrow> qtaim_args \<Rightarrow> point list \<Rightarrow> nat \<Rightarrow> point \<Rightarrow> point list \<Rightarrow> ext_real \<Rightarrow>
   real list option \<Rightarrow> nat list \<Rightarrow> surf_state \<Rightarrow> (error + surf_state) option" where
  "for_ang fuel ext args angular_pts i_maxima maxima other_maximas beta_sph_max other_beta_sph
     [] st = Some (Inr st)"
| "for_ang fuel ext args angular_pts i_maxima maxima other_maximas beta_sph_max other_beta_sph
     (i_ang # rest) st =
     (case ang_step fuel ext args angular_pts i_maxima maxima other_maximas beta_sph_max
             other_beta_sph st i_ang of
        None \<Rightarrow> None
      | Some (Inl e) \<Rightarrow> Some (Inl e)
      | Some (Inr st') \<Rightarrow>
          for_ang fuel ext args angular_pts i_maxima maxima other_maximas beta_sph_max
            other_beta_sph rest st')"

text \<open>
  The refinement of one basin (the block under \<^verbatim>\<open>if type(refine) == type(True) and refine\<close>):
  new directions from the hulls, the recursive call \<open>rec\<close> restricted to this basin, and
  the merge of its result by index offset.
\<close>

definition refine_basin ::
  "(qtaim_args \<Rightarrow> (error + surface_qtaim) option) \<Rightarrow> externals \<Rightarrow> qtaim_args \<Rightarrow> point list \<Rightarrow>
   point list \<Rightarrow> nat \<Rightarrow> surf_state \<Rightarrow> (error + surf_state) option" where
  "refine_basin rec ext args maximas angular_pts i_maxima st =
     (let numb_ang_pts = length angular_pts in
      case construct_points_between_ias_and_oas (ext_hull_vertices ext) (ss_ias st ! i_maxima)
             (ss_oas st ! i_maxima) angular_pts (ss_r_func st ! i_maxima) (maximas ! i_maxima) of
        Inl e \<Rightarrow> Some (Inl e)
      | Inr new_pts \<Rightarrow>
          (case rec (args\<lparr>qa_angular := AngularPoints new_pts, qa_centers := maximas,
                          qa_optimize_centers := False,
                          qa_refine := RefineInt (int i_maxima)\<rparr>) of
             None \<Rightarrow> None
           | Some (Inl e) \<Rightarrow> Some (Inl e)
           | Some (Inr refined_qtaim) \<Rightarrow>
               (case ss_refined_ang st of
                  None \<Rightarrow> Some (Inl AttributeError)
                | Some refined_ang \<Rightarrow>
                    Some (Inr (st\<lparr>
                      ss_ias := (ss_ias st)[i_maxima := ss_ias st ! i_maxima @
                         map (\<lambda>x. x + numb_ang_pts) (sq_ias refined_qtaim ! i_maxima)],
                      ss_oas := (ss_oas st)[i_maxima := ss_oas st ! i_maxima @
                         map (\<lambda>x. x + numb_ang_pts) (sq_oas refined_qtaim ! i_maxima)],
                      ss_basin_ias := (ss_basin_ias st)[i_maxima := ss_basin_ias st ! i_maxima @
                         sq_basins_ias refined_qtaim ! i_maxima],
                      ss_refined_ang := Some (refined_ang @ [new_pts]),
                      ss_r_func := (ss_r_func st)[i_maxima := ss_r_func st ! i_maxima @
                         r_func_row (sq_r_func refined_qtaim) i_maxima]\<rparr>)))))"

text \<open>The body of \<^verbatim>\<open>for i_maxima, maxima in enumerate(maximas)\<close>.\<close>

definition basin_step ::
  "(qtaim_args \<Rightarrow> (error + surface_qtaim) option) \<Rightarrow> nat \<Rightarrow> externals \<Rightarrow> qtaim_args \<Rightarrow>
   point list \<Rightarrow> point list \<Rightarrow> surf_state \<Rightarrow> nat \<Rightarrow> (error + surf_state) option" where
  "basin_step rec fuel ext args maximas angular_pts st i_maxima =
     (let numb_maximas = length maximas in
      if in_maxima_to_do (qa_refine args) numb_maximas i_maxima then
        (let maxima = maximas ! i_maxima;
             other_maximas = np_delete maximas i_maxima;
             beta_sph_max = (case qa_beta_sphere args of
                               None \<Rightarrow> NegInf | Some bs \<Rightarrow> Fin (bs ! i_maxima));
             other_beta_sph = (case qa_beta_sphere args of
                                 None \<Rightarrow> None
                               | Some bs \<Rightarrow>
                                   Some (map (\<lambda>i. bs ! i)
                                     (filter (\<lambda>i. i \<noteq> i_maxima) [0..<numb_maximas])))
         in case for_ang fuel ext args angular_pts i_maxima maxima other_maximas beta_sph_max
                   other_beta_sph [0..<length angular_pts] st of
              None \<Rightarrow> None
            | Some (Inl e) \<Rightarrow> Some (Inl e)
            | Some (Inr st') \<Rightarrow>
                if qa_refine args = RefineBool True
                then refine_basin rec ext args maximas angular_pts i_maxima st'
                else Some (Inr st'))
      else Some (Inr st))"

fun for_maxima ::
  "(qtaim_args \<Rightarrow> (error + surface_qtaim) option) \<Rightarrow> nat \<Rightarrow> externals \<Rightarrow> qtaim_args \<Rightarrow>
   point list \<Rightarrow> point list \<Rightarrow> nat list \<Rightarrow> surf_state \<Rightarrow> (error + surf_state) option" where
  "for_maxima rec fuel ext args maximas angular_pts [] st = Some (Inr st)"
| "for_maxima rec fuel ext args maximas angular_pts (i_maxima # rest) st =
     (case basin_step rec fuel ext args maximas angular_pts st i_maxima of
        None \<Rightarrow> None
      | Some (Inl e) \<Rightarrow> Some (Inl e)
      | Some (Inr st') \<Rightarrow> for_maxima rec fuel ext args maximas angular_pts rest st')"

text \<open>
  The body of \<^verbatim>\<open>qtaim_surface\<close>, with its recursive call as the parameter \<open>rec\<close>: the three
  checks of the configuration, the optional optimization of the centers, the loops, and
  the construction of the \<^verbatim>\<open>SurfaceQTAIM\<close>.
\<close>

definition qtaim_surface_body ::
  "(qtaim_args \<Rightarrow> (error + surface_qtaim) option) \<Rightarrow> nat \<Rightarrow> externals \<Rightarrow> qtaim_args \<Rightarrow>
   (error + surface_qtaim) option" where
  "qtaim_surface_body rec fuel ext args =
     (if qa_refine args = RefineOther then Some (Inl RefineTypeError)
      else if qa_dens_cutoff args > qa_iso_val args then Some (Inl DensCutoffValueError)
      else if (case qa_beta_sphere args of
                 None \<Rightarrow> False
               | Some bs \<Rightarrow> length (qa_centers args) \<noteq> length bs)
      then Some (Inl BetaSphereLengthValueError)
      else
        (case (if qa_optimize_centers args
               then optimize_centers_fn fuel (ext_solve_ivp ext) (qa_centers args)
                      (qa_grad_func args)
               else Some (Inr (qa_centers args))) of
           None \<Rightarrow> None
         | Some (Inl e) \<Rightarrow> Some (Inl e)
         | Some (Inr maximas) \<Rightarrow>
             (let numb_maximas = length maximas;
                  angular_pts = (case qa_angular args of
                                   AngularDegree d \<Rightarrow> ext_angular_grid ext d
                                 | AngularPoints ps \<Rightarrow> ps);
                  numb_ang_pts = length angular_pts;
                  st0 = \<lparr>ss_r_func = replicate numb_maximas (replicate numb_ang_pts 0),
                         ss_oas = replicate numb_maximas [],
                         ss_ias = replicate numb_maximas [],
                         ss_basin_ias = replicate numb_maximas [],
                         ss_refined_ang =
                           (if refine_truthy (qa_refine args) then Some [] else None)\<rparr>
              in case for_maxima rec fuel ext args maximas angular_pts [0..<numb_maximas] st0 of
                   None \<Rightarrow> None
                 | Some (Inl e) \<Rightarrow> Some (Inl e)
                 | Some (Inr st) \<Rightarrow>
                     Some (Inr \<lparr>sq_r_func = RFuncList (ss_r_func st),
                                sq_rad_grids = [qa_rgrids args],
                                sq_angular_degs = DegsOf (qa_angular args),
                                sq_maximas = maximas,
                                sq_oas = ss_oas st,
                                sq_ias = ss_ias st,
                                sq_basins_ias = ss_basin_ias st,
                                sq_refined_ang = ss_refined_ang st\<rparr>))))"

text \<open>
  \<^verbatim>\<open>qtaim_surface\<close>. The fuel bounds the depth of the recursion and the passes of every
  loop below it; \<open>None\<close> means that the call has not finished within the fuel.
\<close>

primrec qtaim_surface :: "nat \<Rightarrow> externals \<Rightarrow> qtaim_args \<Rightarrow> (error + surface_qtaim) option" where
  "qtaim_surface 0 ext = (\<lambda>args. None)"
| "qtaim_surface (Suc fuel) ext = qtaim_surface_body (qtaim_surface fuel ext) (Suc fuel) ext"

section \<open>Integration grid over a basin\<close>

text \<open>
  \<^verbatim>\<open>grid.atomgrid.AtomGrid\<close> is external. Of the grid it builds, the method reads the radial
  points (\<^verbatim>\<open>rgrid.points\<close>), the shell boundaries (\<^verbatim>\<open>indices\<close>), the size of the first
  shell (\<^verbatim>\<open>get_shell_grid(0).size\<close>) and the weights, which it overwrites.
\<close>

record atom_grid =
  ag_rgrid_points :: "real list"
  ag_indices :: "nat list"
  ag_weights :: "real list"
  ag_shell_size :: nat

text \<open>
  \<^verbatim>\<open>self.r_func[i_basin, i_sph]\<close>: a subscript with a tuple. A two-dimensional array
  answers with one entry; a Python list raises \<^verbatim>\<open>TypeError\<close> (list indices must be
  integers or slices, not tuple).
\<close>

fun r_func_at :: "r_func_val \<Rightarrow> nat \<Rightarrow> nat \<Rightarrow> error + real" where
  "r_func_at (RFuncList rows) i_basin i_sph = Inl TypeError"
| "r_func_at (RFuncArray rows) i_basin i_sph =
     (if i_basin < length rows \<and> i_sph < length (rows ! i_basin)
      then Inr (rows ! i_basin ! i_sph) else Inl IndexError)"

text \<open>The inner loop \<^verbatim>\<open>for i_rad in range(atom_grid.rgrid.size)\<close>, on the weights.\<close>

fun for_rad :: "atom_grid \<Rightarrow> real \<Rightarrow> nat \<Rightarrow> nat list \<Rightarrow> real list \<Rightarrow> error + real list" where
  "for_rad g r_limit i_sph [] weights = Inr weights"
| "for_rad g r_limit i_sph (i_rad # rest) weights =
     (if ag_rgrid_points g ! i_rad > r_limit then
        (if Suc i_rad < length (ag_indices g) then
           (let i_start = ag_indices g ! i_rad in
            if i_start + i_sph < length weights
            then for_rad g r_limit i_sph rest (weights[i_start + i_sph := 0])
            else Inl IndexError)
         else Inl IndexError)
      else for_rad g r_limit i_sph rest weights)"

text \<open>The outer loop \<^verbatim>\<open>for i_sph in range(atom_grid.get_shell_grid(0).size)\<close>.\<close>

fun for_sph :: "r_func_val \<Rightarrow> nat \<Rightarrow> atom_grid \<Rightarrow> nat list \<Rightarrow> real list \<Rightarrow> error + real list" where
  "for_sph r_func i_basin g [] weights = Inr weights"
| "for_sph r_func i_basin g (i_sph # rest) weights =
     (case r_func_at r_func i_basin i_sph of
        Inl e \<Rightarrow> Inl e
      | Inr r_limit \<Rightarrow>
          (case for_rad g r_limit i_sph [0..<length (ag_rgrid_points g)] weights of
             Inl e \<Rightarrow> Inl e
           | Inr weights' \<Rightarrow> for_sph r_func i_basin g rest weights'))"

text \<open>
  \<^verbatim>\<open>SurfaceQTAIM.get_atom_grid_over_basin\<close>, for a basin index \<open>i_basin \<ge> 0\<close>; the
  constructor \<^verbatim>\<open>AtomGrid(rad_grid, degrees=[deg], center=maximum)\<close> is the parameter
  \<open>atom_grid_of\<close>.
\<close>

definition get_atom_grid_over_basin ::
  "(real list \<Rightarrow> angular_arg \<Rightarrow> point \<Rightarrow> error + atom_grid) \<Rightarrow> surface_qtaim \<Rightarrow> nat \<Rightarrow>
   error + atom_grid" where
  "get_atom_grid_over_basin atom_grid_of self i_basin =
     (case (case sq_angular_degs self of
              DegsList ds \<Rightarrow>
                if i_basin < length ds then Inr (AngularDegree (ds ! i_basin)) else Inl IndexError
            | DegsOf a \<Rightarrow> Inr a) of
        Inl e \<Rightarrow> Inl e
      | Inr deg \<Rightarrow>
          if length (sq_rad_grids self) \<le> i_basin then Inl IndexError
          else if length (sq_maximas self) \<le> i_basin then Inl IndexError
          else
            (case atom_grid_of (sq_rad_grids self ! i_basin) deg (sq_maximas self ! i_basin) of
               Inl e \<Rightarrow> Inl e
             | Inr g \<Rightarrow>
                 (case for_sph (sq_r_func self) i_basin g [0..<ag_shell_size g] (ag_weights g) of
                    Inl e \<Rightarrow> Inl e
                  | Inr weights \<Rightarrow> Inr (g\<lparr>ag_weights := weights\<rparr>))))"

section \<open>Concrete inputs\<close>

text \<open>
  The grid of \<^verbatim>\<open>np.arange\<close> in exact arithmetic: \<open>\<lceil>(stop - start) / step\<rceil>\<close> points
  \<open>start + k * step\<close> (none when that number is negative; with a zero step the quotient
  is infinite, or NaN when \<open>stop = start\<close>, and numpy raises \<^verbatim>\<open>OverflowError\<close> or
  \<^verbatim>\<open>ValueError\<close>). It stands for numpy's grid in the runs below only: the one grid they
  build has the quotient 23 / 3, far from a whole number, so that rounding does not
  change the number of its points.
\<close>

definition arange_exact :: arange_t where
  "arange_exact start stop step =
     (if step = 0 then (if stop = start then Inl ValueError else Inl OverflowError)
      else Inr (map (\<lambda>k. start + real k * step) [0..<nat \<lceil>(stop - start) / step\<rceil>]))"

text \<open>
  Two maxima on the x axis, a density with a peak at each of them (\<open>1 / (1 + 11100 d\<^sup>2)\<close>
  at distance \<open>d\<close> from the nearer peak on the axis: it equals the isosurface value 0.001
  at \<open>d = 0.3\<close>), an integrator that follows the flow to the maximum on the side of the
  start, and a root-finder that answers with the radius 0.3.
\<close>

definition two_maxima :: "point list" where
  "two_maxima = [(-1, 0, 0), (1, 0, 0)]"

definition peak_density :: "point \<Rightarrow> real" where
  "peak_density p = (case p of (x, y, z) \<Rightarrow> 1 / (1 + 11100 * ((\<bar>x\<bar> - 1) * (\<bar>x\<bar> - 1) + y * y + z * z)))"

definition nearest_ivp :: solve_ivp_t where
  "nearest_ivp f y0 t_span method max_step first_step =
     (let target = (if fst y0 < 0 then (-1, 0, 0) else (1, 0, 0))
      in \<lparr>sol_success = True, sol_y = [y0, target, target]\<rparr>)"

definition exact_root :: root_scalar_t where
  "exact_root f bracket xtol = \<lparr>root_converged = True, root_value = 0.3\<rparr>"

definition two_ext :: externals where
  "two_ext = \<lparr>ext_solve_ivp = nearest_ivp, ext_root_scalar = exact_root,
     ext_arange = arange_exact, ext_angular_grid = (\<lambda>d. []),
     ext_hull_vertices = (\<lambda>ps. Inl QhullError)\<rparr>"

definition two_args :: "refine_arg \<Rightarrow> qtaim_args" where
  "two_args r = \<lparr>qa_rgrids = [0.1, 0.5, 0.9, 1.1],
     qa_angular = AngularPoints [(1, 0, 0), (-1, 0, 0)],
     qa_centers = two_maxima,
     qa_density_func = peak_density,
     qa_grad_func = (\<lambda>p. (0, 0, 0)),
     qa_iso_val = 0.001, qa_dens_cutoff = 0.00001, qa_bnd_err = 0.25, qa_iso_err = 0.000001,
     qa_beta_sphere = None, qa_optimize_centers = False, qa_refine = r\<rparr>"

text \<open>
  An \<^verbatim>\<open>AtomGrid\<close> stand-in with two angular points on every shell and unit weights.
\<close>

definition shell_atom_grid :: "real list \<Rightarrow> angular_arg \<Rightarrow> point \<Rightarrow> error + atom_grid" where
  "shell_atom_grid rgrid deg center =
     Inr \<lparr>ag_rgrid_points = rgrid,
          ag_indices = map (\<lambda>k. 2 * k) [0..<Suc (length rgrid)],
          ag_weights = replicate (2 * length rgrid) 1,
          ag_shell_size = 2\<rparr>"

text \<open>Seeds whose ascent paths all end at the origin.\<close>

definition collapse_ivp :: solve_ivp_t where
  "collapse_ivp f y0 t_span method max_step first_step =
     \<lparr>sol_success = True, sol_y = [y0, (0, 0, 0), (0, 0, 0)]\<rparr>"

definition dup_args :: qtaim_args where
  "dup_args = (two_args (RefineBool False))
     \<lparr>qa_centers := [(0, 0, 0), (0.5, 0, 0)], qa_optimize_centers := True\<rparr>"

definition dup_ext :: externals where
  "dup_ext = two_ext\<lparr>ext_solve_ivp := collapse_ivp\<rparr>"

text \<open>
  An integrator whose trajectory moves one unit along x and ends there: not converged
  (the last two positions differ by 1), as for a point far from every maximum.
\<close>

definition drift_ivp :: solve_ivp_t where
  "drift_ivp f y0 t_span method max_step first_step =
     \<lparr>sol_success = True, sol_y = [y0, vadd y0 (1, 0, 0)]\<rparr>"







text \<open>The two basins with four directions, refinement enabled and a hull that keeps every point.\<close>

definition four_args :: qtaim_args where
  "four_args = (two_args (RefineBool True))
     \<lparr>qa_angular := AngularPoints [(1, 0, 0), (-1, 0, 0), (1, 0, 0), (-1, 0, 0)]\<rparr>"

definition four_ext :: externals where
  "four_ext = two_ext\<lparr>ext_hull_vertices := (\<lambda>ps. Inr ps)\<rparr>"

section \<open>Conditions on a ray sample\<close>


section \<open>The specification's own words\<close>



section \<open>Invariants of the construction loops\<close>

text \<open>
  Predicates on the lists that \<^verbatim>\<open>qtaim_surface\<close> fills: all four lists have one row per
  maximum; the first \<open>k\<close> directions of basin \<open>i\<close> are classified (each index in exactly one
  of the OAS and IAS rows, one neighbor id per IAS index); basin \<open>j\<close> is as initialized;
  two states agree on basin \<open>j\<close>.
\<close>

definition shape :: "nat \<Rightarrow> surf_state \<Rightarrow> bool" where
  "shape n st \<longleftrightarrow> length (ss_r_func st) = n \<and> length (ss_oas st) = n
     \<and> length (ss_ias st) = n \<and> length (ss_basin_ias st) = n"

definition classified :: "surf_state \<Rightarrow> nat \<Rightarrow> nat \<Rightarrow> bool" where
  "classified st i k \<longleftrightarrow> distinct (ss_oas st ! i @ ss_ias st ! i)
     \<and> set (ss_oas st ! i) \<union> set (ss_ias st ! i) = {0..<k}
     \<and> length (ss_basin_ias st ! i) = length (ss_ias st ! i)"

definition untouched :: "surf_state \<Rightarrow> nat \<Rightarrow> nat \<Rightarrow> bool" where
  "untouched st j m \<longleftrightarrow> ss_r_func st ! j = replicate m 0 \<and> ss_oas st ! j = []
     \<and> ss_ias st ! j = [] \<and> ss_basin_ias st ! j = []"

definition same_row :: "surf_state \<Rightarrow> surf_state \<Rightarrow> nat \<Rightarrow> bool" where
  "same_row st st' j \<longleftrightarrow> ss_r_func st' ! j = ss_r_func st ! j \<and> ss_oas st' ! j = ss_oas st ! j
     \<and> ss_ias st' ! j = ss_ias st ! j \<and> ss_basin_ias st' ! j = ss_basin_ias st ! j"

text \<open>
  The directions of a call, the final condition on a basin (classified over all its
  directions if it is traced, as initialized otherwise), the condition on a returned
  surface model, and the assumption on the recursive call.
\<close>

definition angular_pts_of :: "externals \<Rightarrow> qtaim_args \<Rightarrow> point list" where
  "angular_pts_of ext args =
     (case qa_angular args of AngularDegree d \<Rightarrow> ext_angular_grid ext d | AngularPoints ps \<Rightarrow> ps)"

definition basin_done :: "refine_arg \<Rightarrow> nat \<Rightarrow> nat \<Rightarrow> surf_state \<Rightarrow> nat \<Rightarrow> bool" where
  "basin_done refine n m st i \<longleftrightarrow>
     (if in_maxima_to_do refine n i
      then classified st i (length (ss_r_func st ! i))
           \<and> (refine \<noteq> RefineBool True \<longrightarrow> length (ss_r_func st ! i) = m)
      else untouched st i m)"

definition surface_ok :: "externals \<Rightarrow> qtaim_args \<Rightarrow> surface_qtaim \<Rightarrow> bool" where
  "surface_ok ext args sq \<longleftrightarrow>
     (\<exists>st. sq_r_func sq = RFuncList (ss_r_func st) \<and> sq_oas sq = ss_oas st
          \<and> sq_ias sq = ss_ias st \<and> sq_basins_ias sq = ss_basin_ias st
          \<and> shape (length (sq_maximas sq)) st
          \<and> (\<forall>i < length (sq_maximas sq).
                basin_done (qa_refine args) (length (sq_maximas sq))
                  (length (angular_pts_of ext args)) st i))
     \<and> (\<not> qa_optimize_centers args \<longrightarrow> sq_maximas sq = qa_centers args)"

definition rec_ok :: "externals \<Rightarrow> (qtaim_args \<Rightarrow> (error + surface_qtaim) option) \<Rightarrow> bool" where
  "rec_ok ext rec \<longleftrightarrow> (\<forall>a s. rec a = Some (Inr s) \<longrightarrow> surface_ok ext a s)"

text \<open>
  The layout of an \<^verbatim>\<open>AtomGrid\<close> built with one degree for all shells: shell \<open>k\<close> starts at
  \<open>k\<close> times the shell size, and there is one weight per shell sample.
\<close>

definition uniform_shells :: "atom_grid \<Rightarrow> bool" where
  "uniform_shells g \<longleftrightarrow>
     length (ag_indices g) = Suc (length (ag_rgrid_points g))
     \<and> (\<forall>k \<le> length (ag_rgrid_points g). ag_indices g ! k = k * ag_shell_size g)
     \<and> length (ag_weights g) = length (ag_rgrid_points g) * ag_shell_size g"

section \<open>Properties of the gradient-flow integrator\<close>

lemma vnorm_x_axis: "vnorm (a, 0, 0) = \<bar>a\<bar>"
  by simp

text \<open>
  Without a beta sphere the loop stops within \<^verbatim>\<open>max_tries\<close> attempts: every attempt that
  neither fails nor converges increments \<^verbatim>\<open>numb_times\<close>.
\<close>

lemma gradient_path_loop_no_beta_terminates:
  "nat (max_tries - numb_times) < fuel \<Longrightarrow>
   gradient_path_loop fuel solve_ivp grad_func method max_step t_inc max_tries first_step
     NegInf maxima y0 t_span numb_times \<noteq> None"
proof (induction fuel arbitrary: y0 t_span numb_times)
  case 0
  then show ?case by simp
next
  case (Suc fuel)
  show ?case
  proof (cases "numb_times < max_tries")
    case True
    with Suc.prems have "nat (max_tries - (numb_times + 1)) < fuel" by linarith
    from Suc.IH [OF this] True show ?thesis
      by (simp add: Let_def)
  next
    case False
    then show ?thesis by simp
  qed
qed

text \<open>
  With a beta sphere configured, an attempt that has not converged and has not reached
  the sphere changes nothing in the loop state: the retry branch is the \<^verbatim>\<open>else\<close> of
  the beta-sphere test, so \<^verbatim>\<open>numb_times\<close>, \<^verbatim>\<open>y0\<close> and \<^verbatim>\<open>t_span\<close> stay as they are and the
  same attempt is repeated without end.
\<close>

lemma gradient_path_loop_stuck:
  assumes "numb_times < max_tries"
    and "sol_success (solve_ivp (\<lambda>t x. grad_func x) y0 t_span method max_step first_step)"
    and "sol_y (solve_ivp (\<lambda>t x. grad_func x) y0 t_span method max_step first_step) = [p, q]"
    and "\<not> all_close p q 0.01"
    and "\<not> vnorm (vsub q m) < b"
  shows "gradient_path_loop fuel solve_ivp grad_func method max_step t_inc max_tries first_step
           (Fin b) (Some m) y0 t_span numb_times = None"
  using assms by (induction fuel) (simp_all add: Let_def)

text \<open>
  Claim C3. The gradient-flow integrator is claimed to finish within \<^verbatim>\<open>max_tries\<close> ODE
  attempts (a converged point, a point inside the exclusion radius, or the convergence
  error). With a beta sphere of radius 0.5 around the maximum at the origin, a start at
  (2, 0, 0) and an integrator whose attempt ends at (3, 0, 0) without converging, the
  loop never finishes: whatever the fuel, it has neither returned nor raised.
\<close>

theorem gradient_path_beta_sphere_never_returns:
  "gradient_path fuel drift_ivp (2, 0, 0) (\<lambda>x. (1, 0, 0)) (0, 1000) LSODA 50 200 10 0.001
     (Fin 0.5) (Some (0, 0, 0)) = None"
  unfolding gradient_path_def
  by (rule gradient_path_loop_stuck [where p = "(2, 0, 0)" and q = "(3, 0, 0)"])
     (simp_all add: drift_ivp_def)

section \<open>Properties of the isosurface root-finder\<close>

text \<open>
  Claim C8. Once its two bracket radii are read, \<^verbatim>\<open>solve_for_isosurface_pt\<close> checks the
  densities at them before it solves: when the density at the lower radius is below
  \<^verbatim>\<open>iso_val\<close> or the density at the upper radius is above it, the call raises the
  bracket error carrying the two radii and the two densities, whatever the root-finder
  is; when the bracket is valid and the root-finder reports non-convergence, the call
  raises; and a point is returned only for a valid bracket and a converged root.
\<close>

theorem solve_for_isosurface_pt_validates:
  assumes "iso_l_bnd index_iso rad_pts = Inr l_bnd"
    and "iso_u_bnd index_iso rad_pts = Inr u_bnd"
    and "dens_l = density_func (vadd maxima (vscale l_bnd cart_sphere_pt))"
    and "dens_u = density_func (vadd maxima (vscale u_bnd cart_sphere_pt))"
  shows "(dens_l < iso_val \<or> iso_val < dens_u \<longrightarrow>
            solve_for_isosurface_pt root_scalar index_iso rad_pts maxima
              cart_sphere_pt density_func iso_val iso_err =
            Inl (BracketValueError l_bnd u_bnd dens_l dens_u))
       \<and> (iso_val \<le> dens_l \<and> dens_u \<le> iso_val \<and>
            \<not> root_converged (root_scalar
                 (\<lambda>t. density_func (vadd maxima (vscale t cart_sphere_pt)) - iso_val)
                 (l_bnd, u_bnd) iso_err) \<longrightarrow>
            solve_for_isosurface_pt root_scalar index_iso rad_pts maxima cart_sphere_pt
              density_func iso_val iso_err = Inl RootAssertionError)
       \<and> (\<forall>p. solve_for_isosurface_pt root_scalar index_iso rad_pts maxima cart_sphere_pt
              density_func iso_val iso_err = Inr p \<longrightarrow>
            iso_val \<le> dens_l \<and> dens_u \<le> iso_val \<and>
            root_converged (root_scalar
                 (\<lambda>t. density_func (vadd maxima (vscale t cart_sphere_pt)) - iso_val)
                 (l_bnd, u_bnd) iso_err))"
  using assms by (auto simp add: solve_for_isosurface_pt_def Let_def split: if_splits)

theorem solve_for_isosurface_pt_validates_witness:
  "solve_for_isosurface_pt exact_root 3 [0.1, 0.5, 0.9, 1.1] (-1, 0, 0) (-1, 0, 0) peak_density
     0.001 0.000001 = Inl (BracketValueError 0.9 2.2 (1 / 8992) (1 / 53725))"
proof -
  have a: "iso_l_bnd 3 [0.1, 0.5, 0.9, 1.1] = Inr 0.9" "iso_u_bnd 3 [0.1, 0.5, 0.9, 1.1] = Inr 2.2"
    by (simp_all add: iso_l_bnd_def iso_u_bnd_def py_nth_def)
  have d: "1 / 8992 = peak_density (vadd (-1, 0, 0) (vscale 0.9 (-1, 0, 0)))"
     "1 / 53725 = peak_density (vadd (-1, 0, 0) (vscale 2.2 (-1, 0, 0)))"
    by (simp_all add: peak_density_def)
  have c: "(1 / 8992 :: real) < 0.001 \<or> (0.001 :: real) < 1 / 53725"
    by simp
  note t = solve_for_isosurface_pt_validates [OF a(1) a(2) d(1) d(2),
        where iso_val = "0.001" and root_scalar = exact_root and iso_err = "0.000001"]
  from t [THEN conjunct1, THEN mp, OF c] show ?thesis .
qed

section \<open>Properties of the configuration checks\<close>

lemma config_error_refine:
  "qa_refine args = RefineOther \<Longrightarrow>
   qtaim_surface (Suc fuel) ext args = Some (Inl RefineTypeError)"
  by (simp add: qtaim_surface_body_def)

lemma config_error_cutoff:
  "qa_refine args \<noteq> RefineOther \<Longrightarrow> qa_iso_val args < qa_dens_cutoff args \<Longrightarrow>
   qtaim_surface (Suc fuel) ext args = Some (Inl DensCutoffValueError)"
  by (simp add: qtaim_surface_body_def)

lemma config_error_beta:
  "qa_refine args \<noteq> RefineOther \<Longrightarrow> \<not> qa_iso_val args < qa_dens_cutoff args \<Longrightarrow>
   qa_beta_sphere args = Some bs \<Longrightarrow> length bs \<noteq> length (qa_centers args) \<Longrightarrow>
   qtaim_surface (Suc fuel) ext args = Some (Inl BetaSphereLengthValueError)"
  by (simp add: qtaim_surface_body_def)

text \<open>
  Claim C6. A call whose configuration is invalid (\<^verbatim>\<open>dens_cutoff > iso_val\<close>, a
  \<^verbatim>\<open>beta_sphere\<close> whose length differs from the number of centers, or a \<^verbatim>\<open>refine\<close> that
  is neither a bool nor an int) raises one of the three configuration errors, and the same
  one whatever the density, the gradient, the integrator, the root-finder and the other
  collaborators are: none of them is consulted before the error, and no surface is
  returned. One unit of fuel suffices: no loop is entered.
\<close>

theorem qtaim_surface_validates_eagerly:
  assumes "qa_iso_val args < qa_dens_cutoff args
           \<or> (\<exists>bs. qa_beta_sphere args = Some bs \<and> length bs \<noteq> length (qa_centers args))
           \<or> qa_refine args = RefineOther"
  shows "\<exists>e. (e = RefineTypeError \<or> e = DensCutoffValueError \<or> e = BetaSphereLengthValueError) \<and>
           (\<forall>ext density_func grad_func.
              qtaim_surface (Suc fuel) ext
                (args\<lparr>qa_density_func := density_func, qa_grad_func := grad_func\<rparr>) =
              Some (Inl e))"
proof -
  consider (refine) "qa_refine args = RefineOther"
    | (cutoff) "qa_refine args \<noteq> RefineOther" "qa_iso_val args < qa_dens_cutoff args"
    | (beta) bs where "qa_refine args \<noteq> RefineOther" "\<not> qa_iso_val args < qa_dens_cutoff args"
        "qa_beta_sphere args = Some bs" "length bs \<noteq> length (qa_centers args)"
    using assms by blast
  then show ?thesis
  proof cases
    case refine
    then have "\<forall>ext density_func grad_func.
              qtaim_surface (Suc fuel) ext
                (args\<lparr>qa_density_func := density_func, qa_grad_func := grad_func\<rparr>) =
              Some (Inl RefineTypeError)"
      by (intro allI config_error_refine) simp_all
    then show ?thesis by blast
  next
    case cutoff
    then have "\<forall>ext density_func grad_func.
              qtaim_surface (Suc fuel) ext
                (args\<lparr>qa_density_func := density_func, qa_grad_func := grad_func\<rparr>) =
              Some (Inl DensCutoffValueError)"
      by (intro allI config_error_cutoff) simp_all
    then show ?thesis by blast
  next
    case beta
    then have "\<forall>ext density_func grad_func.
              qtaim_surface (Suc fuel) ext
                (args\<lparr>qa_density_func := density_func, qa_grad_func := grad_func\<rparr>) =
              Some (Inl BetaSphereLengthValueError)"
      by (intro allI config_error_beta) simp_all
    then show ?thesis by blast
  qed
qed

theorem qtaim_surface_validates_eagerly_witness:
  "\<exists>e. (e = RefineTypeError \<or> e = DensCutoffValueError \<or> e = BetaSphereLengthValueError)
     \<and> qtaim_surface (Suc 0) two_ext (two_args (RefineBool False)\<lparr>qa_dens_cutoff := 0.01\<rparr>)
         = Some (Inl e)"
proof -
  let ?args = "two_args (RefineBool False)\<lparr>qa_dens_cutoff := 0.01\<rparr>"
  have "qa_iso_val ?args < qa_dens_cutoff ?args"
    by (simp add: two_args_def)
  then have h: "qa_iso_val ?args < qa_dens_cutoff ?args
           \<or> (\<exists>bs. qa_beta_sphere ?args = Some bs \<and> length bs \<noteq> length (qa_centers ?args))
           \<or> qa_refine ?args = RefineOther"
    by (rule disjI1)
  from qtaim_surface_validates_eagerly [OF h, of 0]
  obtain e where kind: "e = RefineTypeError \<or> e = DensCutoffValueError
      \<or> e = BetaSphereLengthValueError"
    and all: "\<forall>ext density_func grad_func.
              qtaim_surface (Suc 0) ext
                (?args\<lparr>qa_density_func := density_func, qa_grad_func := grad_func\<rparr>) =
              Some (Inl e)"
    by blast
  from all have "qtaim_surface (Suc 0) two_ext
      (?args\<lparr>qa_density_func := peak_density, qa_grad_func := (\<lambda>p. (0, 0, 0))\<rparr>) = Some (Inl e)"
    by (elim allE)
  moreover have "?args\<lparr>qa_density_func := peak_density, qa_grad_func := (\<lambda>p. (0, 0, 0))\<rparr> = ?args"
    by (simp add: two_args_def)
  ultimately have "qtaim_surface (Suc 0) two_ext ?args = Some (Inl e)"
    by simp
  with kind show ?thesis by (intro exI [of _ e] conjI)
qed

section \<open>Properties of the maxima locator\<close>

lemma refine_centers_length:
  "refine_centers fuel solve_ivp grad_func centers = Some (Inr maximas) \<Longrightarrow>
   length maximas = length centers"
  by (induction centers arbitrary: maximas)
     (auto split: option.splits sum.splits)

lemma refine_centers_nth:
  "refine_centers fuel solve_ivp grad_func centers = Some (Inr maximas) \<Longrightarrow> k < length centers \<Longrightarrow>
   gradient_path fuel solve_ivp (centers ! k) grad_func (0, 10) Radau 0.01 200 10 0.000000001
     NegInf None = Some (Inr (Some (maximas ! k)))"
proof (induction centers arbitrary: maximas k)
  case Nil
  then show ?case by simp
next
  case (Cons x centers)
  then show ?case
    by (cases k) (auto split: option.splits sum.splits)
qed

lemma has_duplicates_intro:
  "i < length maximas \<Longrightarrow> j < length maximas \<Longrightarrow> i \<noteq> j \<Longrightarrow>
   vnorm (vsub (maximas ! i) (maximas ! j)) < 0.00000001 \<Longrightarrow> has_duplicates maximas"
  unfolding has_duplicates_def list_ex_iff distance_entry_def
  by (intro bexI [of _ i] bexI [of _ j]) simp_all

lemma optimize_centers_duplicates:
  assumes "refine_centers fuel solve_ivp grad_func centers = Some (Inr maximas)"
    and "i < length maximas" and "j < length maximas" and "i \<noteq> j"
    and "vnorm (vsub (maximas ! i) (maximas ! j)) < 0.00000001"
  shows "optimize_centers_fn fuel solve_ivp centers grad_func =
           Some (Inl DuplicateMaximaRuntimeError)"
proof -
  from assms(2) have "maximas \<noteq> []" by auto
  with assms has_duplicates_intro [of i maximas j] show ?thesis
    by (simp add: optimize_centers_fn_def)
qed

text \<open>
  Claim C7. With center optimization enabled and a configuration that passes the checks,
  every seed is refined by one \<^verbatim>\<open>gradient_path\<close> call over the horizon (0, 10) (method
  Radau, first step 1e-9, maximal step 1e-2); when these calls have returned the maxima
  and two different maxima are closer than 1e-8, the call of \<^verbatim>\<open>qtaim_surface\<close> raises the
  duplicate-maxima error, whatever the density, the radial grid, the angular directions,
  the root-finder and the hull are: nothing of the ray tracing is consulted before.
\<close>

theorem duplicate_maxima_abort_before_tracing:
  assumes "qa_refine args \<noteq> RefineOther"
    and "\<not> qa_iso_val args < qa_dens_cutoff args"
    and "qa_beta_sphere args = None \<or> qa_beta_sphere args = Some bs \<and> length bs = length (qa_centers args)"
    and "qa_optimize_centers args"
    and "refine_centers (Suc fuel) (ext_solve_ivp ext) (qa_grad_func args) (qa_centers args) =
           Some (Inr maximas)"
    and "i < length maximas" and "j < length maximas" and "i \<noteq> j"
    and "vnorm (vsub (maximas ! i) (maximas ! j)) < 0.00000001"
  shows "length maximas = length (qa_centers args)
       \<and> (\<forall>k < length (qa_centers args).
            gradient_path (Suc fuel) (ext_solve_ivp ext) (qa_centers args ! k) (qa_grad_func args)
              (0, 10) Radau 0.01 200 10 0.000000001 NegInf None = Some (Inr (Some (maximas ! k))))
       \<and> qtaim_surface (Suc fuel)
            (ext\<lparr>ext_root_scalar := root_scalar, ext_angular_grid := angular_grid,
                  ext_hull_vertices := hull_vertices\<rparr>)
            (args\<lparr>qa_density_func := density_func, qa_rgrids := rgrids,
                   qa_angular := angular\<rparr>) =
          Some (Inl DuplicateMaximaRuntimeError)"
proof (intro conjI allI impI)
  show "length maximas = length (qa_centers args)"
    using assms(5) by (rule refine_centers_length)
next
  fix k assume "k < length (qa_centers args)"
  with assms(5) show "gradient_path (Suc fuel) (ext_solve_ivp ext) (qa_centers args ! k)
      (qa_grad_func args) (0, 10) Radau 0.01 200 10 0.000000001 NegInf None =
      Some (Inr (Some (maximas ! k)))"
    by (rule refine_centers_nth)
next
  have "optimize_centers_fn (Suc fuel) (ext_solve_ivp ext) (qa_centers args) (qa_grad_func args) =
          Some (Inl DuplicateMaximaRuntimeError)"
    using assms(5-9) by (rule optimize_centers_duplicates)
  with assms(1-4) show "qtaim_surface (Suc fuel)
              (ext\<lparr>ext_root_scalar := root_scalar, ext_angular_grid := angular_grid,
                    ext_hull_vertices := hull_vertices\<rparr>)
              (args\<lparr>qa_density_func := density_func, qa_rgrids := rgrids,
                     qa_angular := angular\<rparr>) =
            Some (Inl DuplicateMaximaRuntimeError)"
    by (cases "qa_beta_sphere args") (simp_all add: qtaim_surface_body_def)
qed

lemma dup_refine_centers:
  "refine_centers (Suc 0) (ext_solve_ivp dup_ext) (qa_grad_func dup_args) (qa_centers dup_args) =
     Some (Inr [(0, 0, 0), (0, 0, 0)])"
  by (simp add: gradient_path_def collapse_ivp_def Let_def dup_args_def dup_ext_def two_args_def
        two_ext_def)

theorem duplicate_maxima_abort_before_tracing_witness:
  "qtaim_surface (Suc 0) dup_ext dup_args = Some (Inl DuplicateMaximaRuntimeError)"
proof -
  have h1: "qa_refine dup_args \<noteq> RefineOther"
    and h2: "\<not> qa_iso_val dup_args < qa_dens_cutoff dup_args"
    and h3: "qa_beta_sphere dup_args = None \<or>
             qa_beta_sphere dup_args = Some [] \<and> length [] = length (qa_centers dup_args)"
    and h4: "qa_optimize_centers dup_args"
    by (simp_all add: dup_args_def two_args_def)
  have h9: "vnorm (vsub ([(0, 0, 0), (0, 0, 0)] ! 0) ([(0, 0, 0), (0, 0, 0)] ! 1)) < 0.00000001"
    by simp
  have "qtaim_surface (Suc 0)
              (dup_ext\<lparr>ext_root_scalar := exact_root, ext_angular_grid := (\<lambda>d. []),
                    ext_hull_vertices := (\<lambda>ps. Inl QhullError)\<rparr>)
              (dup_args\<lparr>qa_density_func := peak_density, qa_rgrids := [0.1, 0.5, 0.9, 1.1],
                     qa_angular := AngularPoints [(1, 0, 0), (-1, 0, 0)]\<rparr>) =
            Some (Inl DuplicateMaximaRuntimeError)"
    using duplicate_maxima_abort_before_tracing [OF h1 h2 h3 h4 dup_refine_centers _ _ _ h9]
    by simp
  moreover have "dup_ext\<lparr>ext_root_scalar := exact_root, ext_angular_grid := (\<lambda>d. []),
                    ext_hull_vertices := (\<lambda>ps. Inl QhullError)\<rparr> = dup_ext"
    by (simp add: dup_ext_def two_ext_def)
  moreover have "dup_args\<lparr>qa_density_func := peak_density, qa_rgrids := [0.1, 0.5, 0.9, 1.1],
                     qa_angular := AngularPoints [(1, 0, 0), (-1, 0, 0)]\<rparr> = dup_args"
    by (simp add: dup_args_def two_args_def)
  ultimately show ?thesis by simp
qed

section \<open>A run on two basins\<close>

text \<open>
  The two maxima (-1, 0, 0) and (1, 0, 0), the directions +x and -x, the radial grid
  0.1, 0.5, 0.9, 1.1 and \<^verbatim>\<open>bnd_err = 0.25\<close>. From the left maximum the ray along +x
  crosses into the right basin between the radii 0.9 and 1.1 (IAS, boundary radius 1)
  and the ray along -x escapes (OAS, radius 0.3); from the right maximum it is the
  other way round.
\<close>

lemmas eval_defs = qtaim_surface_body_def two_args_def two_ext_def two_maxima_def basin_step_def
  np_delete_def ang_step_def solve_for_basin_bnd_pt_def np_mean_def np_diff_def ray_step_def
  gradient_path_def nearest_ivp_def peak_density_def any_less_beta_def py_nth_def argmin_first_def
  solve_for_isosurface_pt_def iso_l_bnd_def iso_u_bnd_def exact_root_def Let_def vnorm_x_axis

lemma two_basin_run:
  "qtaim_surface 2 two_ext (two_args (RefineBool False)) =
     Some (Inr \<lparr>sq_r_func = RFuncList [[1, 0.3], [0.3, 1]],
                sq_rad_grids = [[0.1, 0.5, 0.9, 1.1]],
                sq_angular_degs = DegsOf (AngularPoints [(1, 0, 0), (- 1, 0, 0)]),
                sq_maximas = [(- 1, 0, 0), (1, 0, 0)],
                sq_oas = [[1], [0]],
                sq_ias = [[0], [1]],
                sq_basins_ias = [[Some 1], [Some 1]],
                sq_refined_ang = None\<rparr>)"
  by (simp add: eval_nat_numeral eval_defs del: vnorm.simps)

text \<open>
  Claim C5. The neighbor id recorded for an IAS index is claimed never to be the owning
  basin's own id. The id is computed as one plus the position of the neighbor in
  \<^verbatim>\<open>other_maximas\<close>, the maxima with the owner deleted, and that position is not mapped back
  to a position among all maxima. With two basins each records the id 1 for its only
  neighbor: counting basins from 1 (the source's comment) the first basin records its own
  id, counting from 0 (the indices of the surface model) the second one does.
\<close>

theorem ias_neighbor_id_is_own_id:
  "\<exists>sq. qtaim_surface 2 two_ext (two_args (RefineBool False)) = Some (Inr sq)
       \<and> sq_ias sq = [[0], [1]] \<and> sq_basins_ias sq = [[Some 1], [Some 1]]"
  by (simp add: two_basin_run)

section \<open>Properties of the integration grid over a basin\<close>

text \<open>
  On a surface model whose \<^verbatim>\<open>r_func\<close> is a Python list, the first pass through the outer
  loop raises: the subscript \<^verbatim>\<open>r_func[i_basin, i_sph]\<close> is a tuple.
\<close>

lemma get_atom_grid_over_basin_list_raises:
  assumes "sq_r_func self = RFuncList rows" and "sq_angular_degs self = DegsOf a"
    and "i_basin < length (sq_rad_grids self)" and "i_basin < length (sq_maximas self)"
    and "atom_grid_of (sq_rad_grids self ! i_basin) a (sq_maximas self ! i_basin) = Inr g"
    and "0 < ag_shell_size g"
  shows "get_atom_grid_over_basin atom_grid_of self i_basin = Inl TypeError"
proof -
  from assms(6) have "[0..<ag_shell_size g] = 0 # [Suc 0..<ag_shell_size g]"
    by (simp add: upt_conv_Cons)
  with assms(1-5) show ?thesis
    by (simp add: get_atom_grid_over_basin_def)
qed

text \<open>
  Claim C9. \<^verbatim>\<open>get_atom_grid_over_basin\<close> is claimed to return, for every basin index, the
  atom grid with the weights beyond the basin's boundary set to zero. On the surface
  model that \<^verbatim>\<open>qtaim_surface\<close> returns for the two basins above, the call for basin 0
  raises \<^verbatim>\<open>TypeError\<close> (\<^verbatim>\<open>r_func\<close> is a list of arrays, subscripted with a tuple), and the
  call for basin 1 raises \<^verbatim>\<open>IndexError\<close> before that (\<^verbatim>\<open>rad_grids\<close> is the one-element list
  \<^verbatim>\<open>[rgrids]\<close>): no grid is returned.
\<close>

theorem get_atom_grid_over_basin_raises_on_qtaim_surface_model:
  "\<exists>sq. qtaim_surface 2 two_ext (two_args (RefineBool False)) = Some (Inr sq)
     \<and> get_atom_grid_over_basin shell_atom_grid sq 0 = Inl TypeError
     \<and> get_atom_grid_over_basin shell_atom_grid sq 1 = Inl IndexError"
  by (simp add: two_basin_run get_atom_grid_over_basin_def shell_atom_grid_def upt_rec)

section \<open>Properties of the ray tracer\<close>















lemma first_index_Some:
  "first_index P xs = Some k \<Longrightarrow> k < length xs \<and> P (xs ! k)"
proof (induction xs arbitrary: k)
  case Nil
  then show ?case by simp
next
  case (Cons x xs)
  then show ?case by (cases k) (auto split: if_splits)
qed














section \<open>Properties of the surface construction\<close>

text \<open>The ray tracer returns only with one of its two flags set.\<close>

lemma basin_bnd_loop_decides:
  "basin_bnd_loop fuel solve_ivp arange dens_cutoff maxima cart_sphere_pt density_func grad_func
     other_maximas bnd_err iso_val beta_sphere_maxima beta_sphere_others st = Some (Inr st') \<Longrightarrow>
   st_is_ray_to_inf st' \<or> st_found_watershed_on_ray st'"
proof (induction fuel arbitrary: st)
  case 0
  then show ?case by simp
next
  case (Suc fuel)
  show ?case
  proof (cases "st_found_watershed_on_ray st")
    case True
    with Suc.prems show ?thesis by simp
  next
    case False
    let ?ray = "map (\<lambda>r. vadd maxima (vscale r cart_sphere_pt)) (st_rad_pts st)"
    from False Suc.prems obtain st1 where
      pass: "ray_for (Suc fuel) solve_ivp arange dens_cutoff maxima grad_func other_maximas bnd_err
               beta_sphere_maxima beta_sphere_others ?ray (map density_func ?ray)
               [0..<length ?ray] st = Some (Inr st1)"
      and ne: "st_rad_pts st \<noteq> []"
      by (auto simp add: Let_def split: option.splits sum.splits if_splits)
    show ?thesis
    proof (cases "st_is_ray_to_inf st1")
      case True
      with Suc.prems False pass ne show ?thesis
        by (auto simp add: Let_def split: option.splits)
    next
      case inf: False
      with Suc.prems False pass ne have "basin_bnd_loop fuel solve_ivp arange dens_cutoff maxima
          cart_sphere_pt density_func grad_func other_maximas bnd_err iso_val beta_sphere_maxima
          beta_sphere_others st1 = Some (Inr st')"
        by (simp add: Let_def)
      then show ?thesis by (rule Suc.IH)
    qed
  qed
qed

lemma ang_step_result:
  assumes "ang_step fuel ext args angular_pts i maxima other_maximas beta_sph_max other_beta_sph
             st i_ang = Some (Inr st')"
  shows "\<exists>r b. (st' = st\<lparr>ss_r_func := (ss_r_func st)[i := (ss_r_func st ! i)[i_ang := r]],
                        ss_oas := (ss_oas st)[i := ss_oas st ! i @ [i_ang]]\<rparr>)
             \<or> (st' = st\<lparr>ss_r_func := (ss_r_func st)[i := (ss_r_func st ! i)[i_ang := r]],
                        ss_ias := (ss_ias st)[i := ss_ias st ! i @ [i_ang]],
                        ss_basin_ias := (ss_basin_ias st)[i := ss_basin_ias st ! i @ [b]]\<rparr>)"
proof -
  let ?radial = "case qa_beta_sphere args of None \<Rightarrow> qa_rgrids args
                 | Some bs \<Rightarrow> filter (\<lambda>r. r > bs ! i) (qa_rgrids args)"
  from assms obtain res where
    res: "solve_for_basin_bnd_pt fuel (ext_solve_ivp ext) (ext_arange ext) (qa_dens_cutoff args) maxima ?radial
            (angular_pts ! i_ang) (qa_density_func args) (qa_grad_func args) other_maximas
            (qa_bnd_err args) (qa_iso_val args) beta_sph_max other_beta_sph = Some (Inr res)"
    unfolding ang_step_def Let_def by (simp split: option.splits sum.splits)
  from basin_bnd_loop_decides [OF res [unfolded solve_for_basin_bnd_pt_def]]
  have dec: "st_is_ray_to_inf res \<or> st_found_watershed_on_ray res" .
  show ?thesis
  proof (cases "st_is_ray_to_inf res")
    case True
    with assms res show ?thesis
      unfolding ang_step_def Let_def
      by (auto split: option.splits sum.splits)
  next
    case False
    with dec have "st_found_watershed_on_ray res" by simp
    with False assms res show ?thesis
      unfolding ang_step_def Let_def
      by (auto split: option.splits sum.splits)
  qed
qed


lemma ang_step_inv:
  assumes "ang_step fuel ext args angular_pts i maxima other_maximas beta_sph_max other_beta_sph
             st i_ang = Some (Inr st')"
    and "i < n" and "shape n st" and "classified st i i_ang"
  shows "shape n st' \<and> classified st' i (Suc i_ang)
       \<and> length (ss_r_func st' ! i) = length (ss_r_func st ! i)
       \<and> (\<forall>j. j \<noteq> i \<longrightarrow> same_row st st' j)
       \<and> ss_refined_ang st' = ss_refined_ang st"
proof -
  from assms(4) have fresh: "i_ang \<notin> set (ss_oas st ! i)" "i_ang \<notin> set (ss_ias st ! i)"
    unfolding classified_def by auto
  have suc: "{0..<Suc i_ang} = insert i_ang {0..<i_ang}"
    by auto
  from ang_step_result [OF assms(1)] obtain r b where
    "(st' = st\<lparr>ss_r_func := (ss_r_func st)[i := (ss_r_func st ! i)[i_ang := r]],
                        ss_oas := (ss_oas st)[i := ss_oas st ! i @ [i_ang]]\<rparr>)
             \<or> (st' = st\<lparr>ss_r_func := (ss_r_func st)[i := (ss_r_func st ! i)[i_ang := r]],
                        ss_ias := (ss_ias st)[i := ss_ias st ! i @ [i_ang]],
                        ss_basin_ias := (ss_basin_ias st)[i := ss_basin_ias st ! i @ [b]]\<rparr>)"
    by blast
  then show ?thesis
  proof
    assume "st' = st\<lparr>ss_r_func := (ss_r_func st)[i := (ss_r_func st ! i)[i_ang := r]],
                        ss_oas := (ss_oas st)[i := ss_oas st ! i @ [i_ang]]\<rparr>"
    with assms(2-4) fresh show ?thesis
      by (auto simp add: shape_def classified_def same_row_def suc)
  next
    assume "st' = st\<lparr>ss_r_func := (ss_r_func st)[i := (ss_r_func st ! i)[i_ang := r]],
                        ss_ias := (ss_ias st)[i := ss_ias st ! i @ [i_ang]],
                        ss_basin_ias := (ss_basin_ias st)[i := ss_basin_ias st ! i @ [b]]\<rparr>"
    with assms(2-4) fresh show ?thesis
      by (auto simp add: shape_def classified_def same_row_def suc)
  qed
qed

lemma same_row_trans:
  "same_row st st1 j \<Longrightarrow> same_row st1 st' j \<Longrightarrow> same_row st st' j"
  by (simp add: same_row_def)

lemma for_ang_inv:
  assumes "for_ang fuel ext args angular_pts i maxima other_maximas beta_sph_max other_beta_sph
             idxs st = Some (Inr st')"
    and "idxs = [k..<m]" and "k \<le> m" and "i < n" and "shape n st" and "classified st i k"
  shows "shape n st' \<and> classified st' i m
       \<and> length (ss_r_func st' ! i) = length (ss_r_func st ! i)
       \<and> (\<forall>j. j \<noteq> i \<longrightarrow> same_row st st' j)
       \<and> ss_refined_ang st' = ss_refined_ang st"
  using assms
proof (induction idxs arbitrary: k st)
  case Nil
  from Nil.prems(2) [symmetric] have "m \<le> k" by auto
  with Nil.prems(3) have "k = m" by simp
  with Nil show ?case by (simp add: same_row_def)
next
  case (Cons a rest)
  from Cons.prems(2) [symmetric] have km: "k < m" and a: "a = k" and rest: "rest = [Suc k..<m]"
    by (auto simp add: upt_eq_Cons_conv)
  from Cons.prems(1) obtain st1 where
    step: "ang_step fuel ext args angular_pts i maxima other_maximas beta_sph_max other_beta_sph
             st k = Some (Inr st1)"
    and more: "for_ang fuel ext args angular_pts i maxima other_maximas beta_sph_max
             other_beta_sph rest st1 = Some (Inr st')"
    unfolding a by (auto split: option.splits sum.splits)
  from ang_step_inv [OF step Cons.prems(4,5,6)]
  have s1: "shape n st1" and c1: "classified st1 i (Suc k)"
    and l1: "length (ss_r_func st1 ! i) = length (ss_r_func st ! i)"
    and r1: "\<forall>j. j \<noteq> i \<longrightarrow> same_row st st1 j"
    and a1: "ss_refined_ang st1 = ss_refined_ang st"
    by simp_all
  from km have "Suc k \<le> m" by simp
  from Cons.IH [OF more rest this Cons.prems(4) s1 c1]
  have "shape n st'" "classified st' i m"
    "length (ss_r_func st' ! i) = length (ss_r_func st1 ! i)"
    "\<forall>j. j \<noteq> i \<longrightarrow> same_row st1 st' j"
    "ss_refined_ang st' = ss_refined_ang st1"
    by simp_all
  with l1 r1 a1 show ?case
    by (auto intro: same_row_trans)
qed


lemma merge_partition:
  fixes oas ias roas rias :: "nat list" and m l :: nat
  assumes "distinct (oas @ ias)" and "set oas \<union> set ias = {0..<m}"
    and "distinct (roas @ rias)" and "set roas \<union> set rias = {0..<l}"
  shows "distinct ((oas @ map (\<lambda>x. x + m) roas) @ (ias @ map (\<lambda>x. x + m) rias))"
    and "set (oas @ map (\<lambda>x. x + m) roas) \<union> set (ias @ map (\<lambda>x. x + m) rias) = {0..<m + l}"
proof -
  have low: "\<forall>x \<in> set oas \<union> set ias. x < m"
    using assms(2) by auto
  have inj: "inj_on (\<lambda>x. x + m) A" for A :: "nat set"
    by (simp add: inj_on_def)
  have dm: "distinct (map (\<lambda>x. x + m) roas)" "distinct (map (\<lambda>x. x + m) rias)"
    using assms(3) by (simp_all add: distinct_map inj)
  have disj: "set (map (\<lambda>x. x + m) roas) \<inter> set (map (\<lambda>x. x + m) rias) = {}"
    using assms(3) by auto
  show "distinct ((oas @ map (\<lambda>x. x + m) roas) @ (ias @ map (\<lambda>x. x + m) rias))"
    using assms(1) dm disj low by auto
  have "(\<lambda>x. x + m) ` (set roas \<union> set rias) = {m..<m + l}"
    unfolding assms(4)
  proof (intro set_eqI iffI)
    fix y assume "y \<in> (\<lambda>x. x + m) ` {0..<l}"
    then show "y \<in> {m..<m + l}" by auto
  next
    fix y assume "y \<in> {m..<m + l}"
    then have "y - m \<in> {0..<l}" "y = (y - m) + m" by auto
    then show "y \<in> (\<lambda>x. x + m) ` {0..<l}" by (rule_tac image_eqI)
  qed
  then have up: "set (map (\<lambda>x. x + m) roas) \<union> set (map (\<lambda>x. x + m) rias) = {m..<m + l}"
    by (simp add: image_Un)
  have "set (oas @ map (\<lambda>x. x + m) roas) \<union> set (ias @ map (\<lambda>x. x + m) rias)
      = (set oas \<union> set ias) \<union> (set (map (\<lambda>x. x + m) roas) \<union> set (map (\<lambda>x. x + m) rias))"
    by auto
  also have "\<dots> = {0..<m} \<union> {m..<m + l}"
    by (simp only: assms(2) up)
  also have "\<dots> = {0..<m + l}"
    by auto
  finally show "set (oas @ map (\<lambda>x. x + m) roas) \<union> set (ias @ map (\<lambda>x. x + m) rias)
      = {0..<m + l}" .
qed

text \<open>
  The merge of a refinement keeps basin \<open>i\<close> classified, over the old and the new
  directions, and touches no other basin.
\<close>

lemma refine_basin_inv:
  assumes "refine_basin rec ext args maximas angular_pts i st = Some (Inr st')"
    and "rec_ok ext rec" and "i < length maximas" and "shape (length maximas) st"
    and "classified st i (length angular_pts)"
    and "length (ss_r_func st ! i) = length angular_pts"
  shows "shape (length maximas) st' \<and> classified st' i (length (ss_r_func st' ! i))
       \<and> (\<forall>j. j \<noteq> i \<longrightarrow> same_row st st' j)"
proof -
  let ?m = "length angular_pts"
  from assms(1) obtain new_pts refined_qtaim refined_ang where
    rec: "rec (args\<lparr>qa_angular := AngularPoints new_pts, qa_centers := maximas,
                    qa_optimize_centers := False, qa_refine := RefineInt (int i)\<rparr>) =
            Some (Inr refined_qtaim)"
    and st': "st' = st\<lparr>
        ss_ias := (ss_ias st)[i := ss_ias st ! i @ map (\<lambda>x. x + ?m) (sq_ias refined_qtaim ! i)],
        ss_oas := (ss_oas st)[i := ss_oas st ! i @ map (\<lambda>x. x + ?m) (sq_oas refined_qtaim ! i)],
        ss_basin_ias := (ss_basin_ias st)[i := ss_basin_ias st ! i @
           sq_basins_ias refined_qtaim ! i],
        ss_refined_ang := Some (refined_ang @ [new_pts]),
        ss_r_func := (ss_r_func st)[i := ss_r_func st ! i @
           r_func_row (sq_r_func refined_qtaim) i]\<rparr>"
    unfolding refine_basin_def Let_def
    by (auto split: sum.splits option.splits)
  from assms(2) rec have ok: "surface_ok ext
      (args\<lparr>qa_angular := AngularPoints new_pts, qa_centers := maximas,
             qa_optimize_centers := False, qa_refine := RefineInt (int i)\<rparr>) refined_qtaim"
    unfolding rec_ok_def by blast
  then have mx: "sq_maximas refined_qtaim = maximas"
    unfolding surface_ok_def by simp
  from ok obtain rst where
    rf: "sq_r_func refined_qtaim = RFuncList (ss_r_func rst)"
    and ro: "sq_oas refined_qtaim = ss_oas rst" and ri: "sq_ias refined_qtaim = ss_ias rst"
    and rb: "sq_basins_ias refined_qtaim = ss_basin_ias rst"
    and rd: "basin_done (RefineInt (int i)) (length maximas) (length new_pts) rst i"
    unfolding surface_ok_def mx using assms(3)
    by (auto simp add: angular_pts_of_def)
  from rd have rc: "classified rst i (length (ss_r_func rst ! i))"
    unfolding basin_done_def by auto
  let ?l = "length (ss_r_func rst ! i)"
  from assms(5) rc have
    d: "distinct ((ss_oas st ! i @ map (\<lambda>x. x + ?m) (ss_oas rst ! i)) @
                  (ss_ias st ! i @ map (\<lambda>x. x + ?m) (ss_ias rst ! i)))"
    and u: "set (ss_oas st ! i @ map (\<lambda>x. x + ?m) (ss_oas rst ! i)) \<union>
            set (ss_ias st ! i @ map (\<lambda>x. x + ?m) (ss_ias rst ! i)) = {0..<?m + ?l}"
    unfolding classified_def
    using merge_partition [of "ss_oas st ! i" "ss_ias st ! i" ?m "ss_oas rst ! i"
        "ss_ias rst ! i" ?l]
    by simp_all
  from assms(5) rc have b: "length (ss_basin_ias st ! i @ ss_basin_ias rst ! i) =
      length (ss_ias st ! i @ map (\<lambda>x. x + ?m) (ss_ias rst ! i))"
    unfolding classified_def by simp
  from assms(3,4) have sh: "shape (length maximas) st'"
    unfolding st' shape_def by simp
  from assms(3,4) d u b assms(6) have "classified st' i (length (ss_r_func st' ! i))"
    unfolding st' classified_def shape_def rf ro ri rb
    by simp
  moreover have "\<forall>j. j \<noteq> i \<longrightarrow> same_row st st' j"
    unfolding st' same_row_def by simp
  ultimately show ?thesis using sh by simp
qed


lemma same_row_untouched: "same_row st st' j \<Longrightarrow> untouched st j m \<Longrightarrow> untouched st' j m"
  by (simp add: same_row_def untouched_def)

lemma same_row_done:
  assumes "same_row st st' j" and "basin_done refine n m st j"
  shows "basin_done refine n m st' j"
proof -
  from assms(1) have "ss_r_func st' ! j = ss_r_func st ! j"
    by (simp add: same_row_def)
  moreover from assms(1) have "classified st' j k = classified st j k" for k
    by (simp add: same_row_def classified_def)
  moreover from assms(1) have "untouched st' j m = untouched st j m"
    by (simp add: same_row_def untouched_def)
  ultimately show ?thesis
    using assms(2) unfolding basin_done_def by simp
qed

lemma basin_step_inv:
  assumes "basin_step rec fuel ext args maximas angular_pts st i = Some (Inr st')"
    and "rec_ok ext rec" and "i < length maximas" and "shape (length maximas) st"
    and "untouched st i (length angular_pts)"
  shows "shape (length maximas) st'
       \<and> basin_done (qa_refine args) (length maximas) (length angular_pts) st' i
       \<and> (\<forall>j. j \<noteq> i \<longrightarrow> same_row st st' j)"
proof (cases "in_maxima_to_do (qa_refine args) (length maximas) i")
  case False
  with assms(1) have "st' = st"
    by (simp add: basin_step_def Let_def)
  with False assms(4,5) show ?thesis
    by (simp add: basin_done_def same_row_def)
next
  case True
  let ?m = "length angular_pts"
  from True assms(1) obtain st1 where
    loop: "for_ang fuel ext args angular_pts i (maximas ! i) (np_delete maximas i)
             (case qa_beta_sphere args of None \<Rightarrow> NegInf | Some bs \<Rightarrow> Fin (bs ! i))
             (case qa_beta_sphere args of None \<Rightarrow> None
              | Some bs \<Rightarrow> Some (map (\<lambda>i. bs ! i) (filter (\<lambda>j. j \<noteq> i) [0..<length maximas])))
             [0..<?m] st = Some (Inr st1)"
    and fin: "(if qa_refine args = RefineBool True
               then refine_basin rec ext args maximas angular_pts i st1
               else Some (Inr st1)) = Some (Inr st')"
    by (auto simp add: basin_step_def Let_def split: option.splits sum.splits)
  from assms(5) have c0: "classified st i 0" and l0: "length (ss_r_func st ! i) = ?m"
    by (simp_all add: untouched_def classified_def)
  from for_ang_inv [OF loop refl _ assms(3,4) c0]
  have s1: "shape (length maximas) st1" and c1: "classified st1 i ?m"
    and l1: "length (ss_r_func st1 ! i) = ?m"
    and r1: "\<forall>j. j \<noteq> i \<longrightarrow> same_row st st1 j"
    using l0 by simp_all
  show ?thesis
  proof (cases "qa_refine args = RefineBool True")
    case refine: True
    with fin have "refine_basin rec ext args maximas angular_pts i st1 = Some (Inr st')"
      by simp
    from refine_basin_inv [OF this assms(2,3) s1 c1 l1]
    have "shape (length maximas) st'" "classified st' i (length (ss_r_func st' ! i))"
      "\<forall>j. j \<noteq> i \<longrightarrow> same_row st1 st' j"
      by simp_all
    with r1 True refine show ?thesis
      by (auto simp add: basin_done_def intro: same_row_trans)
  next
    case False
    with fin have "st' = st1" by simp
    with s1 c1 l1 r1 True False show ?thesis
      by (simp add: basin_done_def)
  qed
qed

text \<open>
  The loop over the maxima: the basins already visited satisfy the final condition, the
  others are as initialized.
\<close>

lemma for_maxima_inv:
  assumes "for_maxima rec fuel ext args maximas angular_pts idxs st = Some (Inr st')"
    and "idxs = [k..<length maximas]" and "k \<le> length maximas"
    and "rec_ok ext rec" and "shape (length maximas) st"
    and "\<forall>i < k. basin_done (qa_refine args) (length maximas) (length angular_pts) st i"
    and "\<forall>i. k \<le> i \<and> i < length maximas \<longrightarrow> untouched st i (length angular_pts)"
  shows "shape (length maximas) st'
       \<and> (\<forall>i < length maximas.
             basin_done (qa_refine args) (length maximas) (length angular_pts) st' i)"
  using assms
proof (induction idxs arbitrary: k st)
  case Nil
  from Nil.prems(2) [symmetric] have "length maximas \<le> k" by auto
  with Nil show ?case by simp
next
  case (Cons a rest)
  let ?n = "length maximas"
  from Cons.prems(2) [symmetric] have kn: "k < ?n" and a: "a = k" and rest: "rest = [Suc k..<?n]"
    by (auto simp add: upt_eq_Cons_conv)
  from Cons.prems(1) obtain st1 where
    step: "basin_step rec fuel ext args maximas angular_pts st k = Some (Inr st1)"
    and more: "for_maxima rec fuel ext args maximas angular_pts rest st1 = Some (Inr st')"
    unfolding a by (auto split: option.splits sum.splits)
  from Cons.prems(7) kn have "untouched st k (length angular_pts)" by simp
  from basin_step_inv [OF step Cons.prems(4) kn Cons.prems(5) this]
  have s1: "shape ?n st1"
    and d1: "basin_done (qa_refine args) ?n (length angular_pts) st1 k"
    and r1: "\<forall>j. j \<noteq> k \<longrightarrow> same_row st st1 j"
    by simp_all
  have done1: "\<forall>i < Suc k. basin_done (qa_refine args) ?n (length angular_pts) st1 i"
  proof (intro allI impI)
    fix i assume "i < Suc k"
    show "basin_done (qa_refine args) ?n (length angular_pts) st1 i"
    proof (cases "i = k")
      case True
      with d1 show ?thesis by simp
    next
      case False
      with \<open>i < Suc k\<close> have "i < k" by simp
      with Cons.prems(6) r1 False show ?thesis
        by (auto intro: same_row_done)
    qed
  qed
  have rest1: "\<forall>i. Suc k \<le> i \<and> i < ?n \<longrightarrow> untouched st1 i (length angular_pts)"
  proof (intro allI impI)
    fix i assume i: "Suc k \<le> i \<and> i < ?n"
    then have "i \<noteq> k" "k \<le> i \<and> i < ?n" by simp_all
    with Cons.prems(7) r1 show "untouched st1 i (length angular_pts)"
      by (auto intro: same_row_untouched)
  qed
  from kn have "Suc k \<le> ?n" by simp
  from Cons.IH [OF more rest this Cons.prems(4) s1 done1 rest1] show ?case .
qed

lemma qtaim_surface_body_ok:
  assumes "qtaim_surface_body rec fuel ext args = Some (Inr sq)" and "rec_ok ext rec"
  shows "surface_ok ext args sq"
proof -
  let ?apts = "angular_pts_of ext args"
  from assms(1) obtain maximas st where
    mx: "(if qa_optimize_centers args
          then optimize_centers_fn fuel (ext_solve_ivp ext) (qa_centers args) (qa_grad_func args)
          else Some (Inr (qa_centers args))) = Some (Inr maximas)"
    and loop: "for_maxima rec fuel ext args maximas ?apts [0..<length maximas]
        \<lparr>ss_r_func = replicate (length maximas) (replicate (length ?apts) 0),
         ss_oas = replicate (length maximas) [],
         ss_ias = replicate (length maximas) [],
         ss_basin_ias = replicate (length maximas) [],
         ss_refined_ang = (if refine_truthy (qa_refine args) then Some [] else None)\<rparr> =
        Some (Inr st)"
    and sq: "sq = \<lparr>sq_r_func = RFuncList (ss_r_func st),
                   sq_rad_grids = [qa_rgrids args],
                   sq_angular_degs = DegsOf (qa_angular args),
                   sq_maximas = maximas,
                   sq_oas = ss_oas st,
                   sq_ias = ss_ias st,
                   sq_basins_ias = ss_basin_ias st,
                   sq_refined_ang = ss_refined_ang st\<rparr>"
    unfolding qtaim_surface_body_def Let_def angular_pts_of_def
    by (auto split: if_splits option.splits sum.splits)
  let ?st0 = "\<lparr>ss_r_func = replicate (length maximas) (replicate (length ?apts) 0),
         ss_oas = replicate (length maximas) [],
         ss_ias = replicate (length maximas) [],
         ss_basin_ias = replicate (length maximas) [],
         ss_refined_ang = (if refine_truthy (qa_refine args) then Some [] else None)\<rparr>"
  have s0: "shape (length maximas) ?st0"
    by (simp add: shape_def)
  have u0: "\<forall>i. 0 \<le> i \<and> i < length maximas \<longrightarrow> untouched ?st0 i (length ?apts)"
    by (simp add: untouched_def)
  have d0: "\<forall>i < 0. basin_done (qa_refine args) (length maximas) (length ?apts) ?st0 i"
    by simp
  from for_maxima_inv [OF loop refl _ assms(2) s0 d0 u0]
  have "shape (length maximas) st"
    "\<forall>i < length maximas. basin_done (qa_refine args) (length maximas) (length ?apts) st i"
    by simp_all
  moreover from mx have "\<not> qa_optimize_centers args \<longrightarrow> maximas = qa_centers args"
    by (simp split: if_splits)
  ultimately show ?thesis
    unfolding surface_ok_def sq by auto
qed

text \<open>Every surface model that \<^verbatim>\<open>qtaim_surface\<close> returns satisfies the condition.\<close>

lemma qtaim_surface_ok:
  "qtaim_surface fuel ext args = Some (Inr sq) \<Longrightarrow> surface_ok ext args sq"
proof (induction fuel arbitrary: args sq)
  case 0
  then show ?case by simp
next
  case (Suc fuel)
  from Suc.IH have "rec_ok ext (qtaim_surface fuel ext)"
    unfolding rec_ok_def by blast
  with Suc.prems show ?case
    by (simp add: qtaim_surface_body_ok)
qed

lemma surface_ok_row:
  assumes "surface_ok ext args sq" and "i < length (sq_maximas sq)"
  shows "if in_maxima_to_do (qa_refine args) (length (sq_maximas sq)) i
         then distinct (sq_oas sq ! i @ sq_ias sq ! i)
              \<and> set (sq_oas sq ! i) \<union> set (sq_ias sq ! i) = {0..<length (r_func_row (sq_r_func sq) i)}
              \<and> length (sq_basins_ias sq ! i) = length (sq_ias sq ! i)
              \<and> (qa_refine args \<noteq> RefineBool True \<longrightarrow>
                   length (r_func_row (sq_r_func sq) i) = length (angular_pts_of ext args))
         else r_func_row (sq_r_func sq) i = replicate (length (angular_pts_of ext args)) 0
              \<and> sq_oas sq ! i = [] \<and> sq_ias sq ! i = [] \<and> sq_basins_ias sq ! i = []"
proof -
  from assms obtain st where
    f: "sq_r_func sq = RFuncList (ss_r_func st)" "sq_oas sq = ss_oas st"
       "sq_ias sq = ss_ias st" "sq_basins_ias sq = ss_basin_ias st"
    and d: "basin_done (qa_refine args) (length (sq_maximas sq))
              (length (angular_pts_of ext args)) st i"
    unfolding surface_ok_def by blast
  from d show ?thesis
    unfolding basin_done_def classified_def untouched_def f
    by (simp split: if_splits)
qed

text \<open>
  Claim C4. In every surface model that \<^verbatim>\<open>qtaim_surface\<close> returns, for every basin, the OAS
  indices and the IAS indices are lists without repetition that share no index, and
  together they are the indices of all directions of the basin (the base directions and,
  after a refinement, the appended ones: as many as the basin's radial function has
  entries) when the basin is traced, and no index at all when it is not.
\<close>

theorem oas_ias_partition:
  assumes "qtaim_surface fuel ext args = Some (Inr sq)" and "i < length (sq_maximas sq)"
  shows "distinct (sq_oas sq ! i) \<and> distinct (sq_ias sq ! i)
       \<and> set (sq_oas sq ! i) \<inter> set (sq_ias sq ! i) = {}
       \<and> set (sq_oas sq ! i) \<union> set (sq_ias sq ! i) =
           (if in_maxima_to_do (qa_refine args) (length (sq_maximas sq)) i
            then {0..<length (r_func_row (sq_r_func sq) i)} else {})"
proof -
  from qtaim_surface_ok [OF assms(1)] have "surface_ok ext args sq" .
  from surface_ok_row [OF this assms(2)] show ?thesis
    by (cases "in_maxima_to_do (qa_refine args) (length (sq_maximas sq)) i") simp_all
qed

text \<open>
  Claim C10. When \<^verbatim>\<open>refine\<close> is the integer \<open>r\<close>, every basin other than \<open>r\<close> of the returned
  surface model has a radial function of zeros and empty OAS, IAS and neighbor-id lists,
  and basin \<open>r\<close> is fully classified: each of its directions is in exactly one of the OAS
  and IAS lists, with one neighbor id per IAS index.
\<close>

theorem refine_int_traces_one_basin:
  assumes "qtaim_surface fuel ext args = Some (Inr sq)"
    and "qa_refine args = RefineInt r" and "j < length (sq_maximas sq)"
  shows "(int j \<noteq> r \<longrightarrow>
            r_func_row (sq_r_func sq) j = replicate (length (angular_pts_of ext args)) 0
            \<and> sq_oas sq ! j = [] \<and> sq_ias sq ! j = [] \<and> sq_basins_ias sq ! j = [])
       \<and> (int j = r \<longrightarrow>
            length (r_func_row (sq_r_func sq) j) = length (angular_pts_of ext args)
            \<and> set (sq_oas sq ! j) \<inter> set (sq_ias sq ! j) = {}
            \<and> set (sq_oas sq ! j) \<union> set (sq_ias sq ! j) = {0..<length (angular_pts_of ext args)}
            \<and> length (sq_basins_ias sq ! j) = length (sq_ias sq ! j))"
proof -
  from qtaim_surface_ok [OF assms(1)] have "surface_ok ext args sq" .
  from surface_ok_row [OF this assms(3)] show ?thesis
    unfolding assms(2) by (cases "int j = r") simp_all
qed

lemma two_basin_run_int:
  "qtaim_surface 2 two_ext (two_args (RefineInt 1)) =
     Some (Inr \<lparr>sq_r_func = RFuncList [[0, 0], [0.3, 1]],
                sq_rad_grids = [[0.1, 0.5, 0.9, 1.1]],
                sq_angular_degs = DegsOf (AngularPoints [(1, 0, 0), (- 1, 0, 0)]),
                sq_maximas = [(- 1, 0, 0), (1, 0, 0)],
                sq_oas = [[], [0]],
                sq_ias = [[], [1]],
                sq_basins_ias = [[], [Some 1]],
                sq_refined_ang = Some []\<rparr>)"
  by (simp add: eval_nat_numeral eval_defs del: vnorm.simps)

text \<open>
  A run with refinement enabled: four directions (+x and -x, twice each) and a hull that
  keeps every point. Each basin gets fourteen more directions from the refinement, and
  the recursive call classifies them.
\<close>

lemma four_run:
  "\<exists>sq. qtaim_surface 3 four_ext four_args = Some (Inr sq)
     \<and> length (sq_maximas sq) = 2
     \<and> sq_oas sq ! 0 = [1, 3, 7, 9, 10, 14, 16, 17]
     \<and> sq_ias sq ! 0 = [0, 2, 4, 5, 6, 8, 11, 12, 13, 15]
     \<and> length (r_func_row (sq_r_func sq) 0) = 18"
  by (simp add: eval_nat_numeral eval_defs four_args_def four_ext_def refine_basin_def
        construct_points_between_ias_and_oas_def seven_points_def
      del: vnorm.simps)

theorem oas_ias_partition_witness:
  "(\<exists>sq. qtaim_surface 2 two_ext (two_args (RefineBool False)) = Some (Inr sq)
     \<and> distinct (sq_oas sq ! 0) \<and> distinct (sq_ias sq ! 0)
     \<and> set (sq_oas sq ! 0) \<inter> set (sq_ias sq ! 0) = {}
     \<and> set (sq_oas sq ! 0) \<union> set (sq_ias sq ! 0) = {0..<2})
   \<and> (\<exists>sq. qtaim_surface 3 four_ext four_args = Some (Inr sq)
     \<and> distinct (sq_oas sq ! 0) \<and> distinct (sq_ias sq ! 0)
     \<and> set (sq_oas sq ! 0) \<inter> set (sq_ias sq ! 0) = {}
     \<and> set (sq_oas sq ! 0) \<union> set (sq_ias sq ! 0) = {0..<18})"
proof
  show "\<exists>sq. qtaim_surface 2 two_ext (two_args (RefineBool False)) = Some (Inr sq)
     \<and> distinct (sq_oas sq ! 0) \<and> distinct (sq_ias sq ! 0)
     \<and> set (sq_oas sq ! 0) \<inter> set (sq_ias sq ! 0) = {}
     \<and> set (sq_oas sq ! 0) \<union> set (sq_ias sq ! 0) = {0..<2}"
    using oas_ias_partition [OF two_basin_run, of 0] two_basin_run
    by (simp add: two_args_def numeral_2_eq_2)
next
  from four_run obtain sq where run: "qtaim_surface 3 four_ext four_args = Some (Inr sq)"
    and n: "length (sq_maximas sq) = 2"
    and l: "length (r_func_row (sq_r_func sq) 0) = 18"
    by blast
  from n have i: "0 < length (sq_maximas sq)" by simp
  have r: "in_maxima_to_do (qa_refine four_args) (length (sq_maximas sq)) 0"
    using n by (simp add: four_args_def two_args_def)
  from oas_ias_partition [OF run i] r l
  have "distinct (sq_oas sq ! 0) \<and> distinct (sq_ias sq ! 0)
     \<and> set (sq_oas sq ! 0) \<inter> set (sq_ias sq ! 0) = {}
     \<and> set (sq_oas sq ! 0) \<union> set (sq_ias sq ! 0) = {0..<18}"
    by simp
  with run show "\<exists>sq. qtaim_surface 3 four_ext four_args = Some (Inr sq)
     \<and> distinct (sq_oas sq ! 0) \<and> distinct (sq_ias sq ! 0)
     \<and> set (sq_oas sq ! 0) \<inter> set (sq_ias sq ! 0) = {}
     \<and> set (sq_oas sq ! 0) \<union> set (sq_ias sq ! 0) = {0..<18}"
    by blast
qed

theorem refine_int_traces_one_basin_witness:
  "\<exists>sq. qtaim_surface 2 two_ext (two_args (RefineInt 1)) = Some (Inr sq)
     \<and> r_func_row (sq_r_func sq) 0 = [0, 0]
     \<and> sq_oas sq ! 0 = [] \<and> sq_ias sq ! 0 = [] \<and> sq_basins_ias sq ! 0 = []
     \<and> length (r_func_row (sq_r_func sq) 1) = 2
     \<and> set (sq_oas sq ! 1) \<inter> set (sq_ias sq ! 1) = {}
     \<and> set (sq_oas sq ! 1) \<union> set (sq_ias sq ! 1) = {0..<2}
     \<and> length (sq_basins_ias sq ! 1) = length (sq_ias sq ! 1)"
proof -
  have r: "qa_refine (two_args (RefineInt 1)) = RefineInt 1"
    by (simp add: two_args_def)
  have a: "length (angular_pts_of two_ext (two_args (RefineInt 1))) = 2"
    by (simp add: angular_pts_of_def two_args_def)
  note t0 = refine_int_traces_one_basin [OF two_basin_run_int r, of 0]
  note t1 = refine_int_traces_one_basin [OF two_basin_run_int r, of 1]
  from t0 t1 two_basin_run_int show ?thesis
    by (simp add: a numeral_2_eq_2)
qed

section \<open>The zeroing of the weights on a two-dimensional radial function\<close>

text \<open>
  When \<^verbatim>\<open>r_func\<close> is a two-dimensional array, the two loops do what the method is meant
  to do: the weight of the shell sample \<open>(i_rad, i_sph)\<close> becomes zero when the radius of
  the shell exceeds the boundary radius of the direction, and stays as it was otherwise.
\<close>

lemma shell_position_bound:
  fixes k s n i :: nat
  assumes "k < n" and "i < s"
  shows "k * s + i < n * s"
proof -
  from assms(2) have "k * s + i < Suc k * s" by simp
  also from assms(1) have "Suc k * s \<le> n * s" by (intro mult_le_mono1) simp
  finally show ?thesis .
qed

lemma shell_position_unique:
  fixes a b s i j :: nat
  assumes "a * s + i = b * s + j" and "i < s" and "j < s"
  shows "a = b \<and> i = j"
proof -
  from assms(2,3) have "(a * s + i) div s = a" "(b * s + j) div s = b"
    "(a * s + i) mod s = i" "(b * s + j) mod s = j"
    by simp_all
  with assms(1) show ?thesis by metis
qed

lemma for_rad_effect:
  assumes "uniform_shells g" and "i_sph < ag_shell_size g"
    and "length weights = length (ag_weights g)"
    and "idxs = [k..<n]" and "k \<le> n" and "n \<le> length (ag_rgrid_points g)"
  shows "\<exists>w. for_rad g r_limit i_sph idxs weights = Inr w \<and> length w = length weights
           \<and> (\<forall>p < length weights.
                 w ! p = (if \<exists>i_rad. k \<le> i_rad \<and> i_rad < n \<and> p = i_rad * ag_shell_size g + i_sph
                               \<and> r_limit < ag_rgrid_points g ! i_rad
                          then 0 else weights ! p))"
  using assms
proof (induction idxs arbitrary: k weights)
  case Nil
  from Nil.prems(4) [symmetric] Nil.prems(5) have "k = n" by auto
  then show ?case by auto
next
  case (Cons a rest)
  let ?S = "ag_shell_size g" and ?N = "length (ag_rgrid_points g)"
  from Cons.prems(4) [symmetric] have kn: "k < n" and a: "a = k" and rest: "rest = [Suc k..<n]"
    by (auto simp add: upt_eq_Cons_conv)
  note u = Cons.prems(1) and i = Cons.prems(2) and lw = Cons.prems(3)
  from kn Cons.prems(6) have kN: "k < ?N" by simp
  from u kN have idx: "Suc k < length (ag_indices g)" "ag_indices g ! k = k * ?S"
    and tot: "length (ag_weights g) = ?N * ?S"
    by (simp_all add: uniform_shells_def)
  from shell_position_bound [OF kN i] lw tot have pos: "k * ?S + i_sph < length weights"
    by simp
  let ?w1 = "if r_limit < ag_rgrid_points g ! k then weights[k * ?S + i_sph := 0] else weights"
  have step: "for_rad g r_limit i_sph (a # rest) weights = for_rad g r_limit i_sph rest ?w1"
    using idx pos by (simp add: a Let_def)
  have lw1: "length ?w1 = length (ag_weights g)"
    using lw by simp
  from kn have "Suc k \<le> n" by simp
  from Cons.IH [OF u i lw1 rest this Cons.prems(6)]
  obtain w where w: "for_rad g r_limit i_sph rest ?w1 = Inr w" "length w = length ?w1"
    and eff: "\<forall>p < length ?w1.
                 w ! p = (if \<exists>i_rad. Suc k \<le> i_rad \<and> i_rad < n \<and> p = i_rad * ?S + i_sph
                               \<and> r_limit < ag_rgrid_points g ! i_rad
                          then 0 else ?w1 ! p)"
    by blast
  have "\<forall>p < length weights.
          w ! p = (if \<exists>i_rad. k \<le> i_rad \<and> i_rad < n \<and> p = i_rad * ?S + i_sph
                        \<and> r_limit < ag_rgrid_points g ! i_rad
                   then 0 else weights ! p)"
  proof (intro allI impI)
    fix p assume p: "p < length weights"
    let ?later = "\<exists>i_rad. Suc k \<le> i_rad \<and> i_rad < n \<and> p = i_rad * ?S + i_sph
                     \<and> r_limit < ag_rgrid_points g ! i_rad"
    let ?here = "p = k * ?S + i_sph \<and> r_limit < ag_rgrid_points g ! k"
    have split: "(\<exists>i_rad. k \<le> i_rad \<and> i_rad < n \<and> p = i_rad * ?S + i_sph
                     \<and> r_limit < ag_rgrid_points g ! i_rad) \<longleftrightarrow> ?here \<or> ?later"
      using kn by (metis Suc_leI le_antisym not_less_eq_eq order_refl Suc_leD)
    from eff p have wp: "w ! p = (if ?later then 0 else ?w1 ! p)" by simp
    have w1p: "?w1 ! p = (if ?here then 0 else weights ! p)"
      using p by (auto simp add: nth_list_update)
    from wp w1p show "w ! p = (if \<exists>i_rad. k \<le> i_rad \<and> i_rad < n \<and> p = i_rad * ?S + i_sph
                        \<and> r_limit < ag_rgrid_points g ! i_rad
                   then 0 else weights ! p)"
      unfolding split by auto
  qed
  with w step show ?case by simp
qed


lemma for_sph_effect:
  assumes "uniform_shells g" and "length weights = length (ag_weights g)"
    and "idxs = [k..<ag_shell_size g]" and "k \<le> ag_shell_size g"
    and "i_basin < length rows" and "ag_shell_size g \<le> length (rows ! i_basin)"
  shows "\<exists>w. for_sph (RFuncArray rows) i_basin g idxs weights = Inr w
           \<and> length w = length weights
           \<and> (\<forall>p < length weights.
                 w ! p = (if \<exists>i_sph i_rad. k \<le> i_sph \<and> i_sph < ag_shell_size g
                               \<and> i_rad < length (ag_rgrid_points g)
                               \<and> p = i_rad * ag_shell_size g + i_sph
                               \<and> rows ! i_basin ! i_sph < ag_rgrid_points g ! i_rad
                          then 0 else weights ! p))"
  using assms
proof (induction idxs arbitrary: k weights)
  case Nil
  from Nil.prems(3) [symmetric] Nil.prems(4) have "k = ag_shell_size g" by auto
  then show ?case by auto
next
  case (Cons a rest)
  let ?S = "ag_shell_size g" and ?N = "length (ag_rgrid_points g)"
  from Cons.prems(3) [symmetric] have kS: "k < ?S" and a: "a = k" and rest: "rest = [Suc k..<?S]"
    by (auto simp add: upt_eq_Cons_conv)
  from kS Cons.prems(5,6) have lim: "r_func_at (RFuncArray rows) i_basin k = Inr (rows ! i_basin ! k)"
    by simp
  from for_rad_effect [OF Cons.prems(1) kS Cons.prems(2) refl,
      where k = 0 and n = ?N and r_limit = "rows ! i_basin ! k"]
  obtain w1 where w1: "for_rad g (rows ! i_basin ! k) k [0..<?N] weights = Inr w1"
    and l1: "length w1 = length weights"
    and e1: "\<forall>p < length weights.
                 w1 ! p = (if \<exists>i_rad. 0 \<le> i_rad \<and> i_rad < ?N \<and> p = i_rad * ?S + k
                               \<and> rows ! i_basin ! k < ag_rgrid_points g ! i_rad
                           then 0 else weights ! p)"
    by auto
  from l1 Cons.prems(2) have lw1: "length w1 = length (ag_weights g)" by simp
  from kS have "Suc k \<le> ?S" by simp
  from Cons.IH [OF Cons.prems(1) lw1 rest this Cons.prems(5,6)]
  obtain w where w: "for_sph (RFuncArray rows) i_basin g rest w1 = Inr w"
    and l: "length w = length w1"
    and e: "\<forall>p < length w1.
                 w ! p = (if \<exists>i_sph i_rad. Suc k \<le> i_sph \<and> i_sph < ?S \<and> i_rad < ?N
                               \<and> p = i_rad * ?S + i_sph
                               \<and> rows ! i_basin ! i_sph < ag_rgrid_points g ! i_rad
                          then 0 else w1 ! p)"
    by blast
  have run: "for_sph (RFuncArray rows) i_basin g (a # rest) weights = Inr w"
    unfolding a using lim w1 w by simp
  have "\<forall>p < length weights.
          w ! p = (if \<exists>i_sph i_rad. k \<le> i_sph \<and> i_sph < ?S \<and> i_rad < ?N
                        \<and> p = i_rad * ?S + i_sph
                        \<and> rows ! i_basin ! i_sph < ag_rgrid_points g ! i_rad
                   then 0 else weights ! p)"
  proof (intro allI impI)
    fix p assume p: "p < length weights"
    let ?later = "\<exists>i_sph i_rad. Suc k \<le> i_sph \<and> i_sph < ?S \<and> i_rad < ?N
                     \<and> p = i_rad * ?S + i_sph
                     \<and> rows ! i_basin ! i_sph < ag_rgrid_points g ! i_rad"
    let ?here = "\<exists>i_rad. 0 \<le> i_rad \<and> i_rad < ?N \<and> p = i_rad * ?S + k
                     \<and> rows ! i_basin ! k < ag_rgrid_points g ! i_rad"
    have split: "(\<exists>i_sph i_rad. k \<le> i_sph \<and> i_sph < ?S \<and> i_rad < ?N
                     \<and> p = i_rad * ?S + i_sph
                     \<and> rows ! i_basin ! i_sph < ag_rgrid_points g ! i_rad) \<longleftrightarrow> ?here \<or> ?later"
    proof
      assume "\<exists>i_sph i_rad. k \<le> i_sph \<and> i_sph < ?S \<and> i_rad < ?N
                     \<and> p = i_rad * ?S + i_sph
                     \<and> rows ! i_basin ! i_sph < ag_rgrid_points g ! i_rad"
      then obtain i_sph i_rad where h: "k \<le> i_sph" "i_sph < ?S" "i_rad < ?N"
          "p = i_rad * ?S + i_sph" "rows ! i_basin ! i_sph < ag_rgrid_points g ! i_rad"
        by blast
      show "?here \<or> ?later"
      proof (cases "i_sph = k")
        case True
        with h have ?here by auto
        then show ?thesis ..
      next
        case False
        with h(1) have "Suc k \<le> i_sph" by simp
        with h have ?later by blast
        then show ?thesis ..
      qed
    next
      assume "?here \<or> ?later"
      then show "\<exists>i_sph i_rad. k \<le> i_sph \<and> i_sph < ?S \<and> i_rad < ?N
                     \<and> p = i_rad * ?S + i_sph
                     \<and> rows ! i_basin ! i_sph < ag_rgrid_points g ! i_rad"
      proof
        assume ?here
        with kS show ?thesis by blast
      next
        assume ?later
        then obtain i_sph i_rad where h: "Suc k \<le> i_sph" "i_sph < ?S" "i_rad < ?N"
          "p = i_rad * ?S + i_sph" "rows ! i_basin ! i_sph < ag_rgrid_points g ! i_rad"
          by blast
        from h(1) have "k \<le> i_sph" by simp
        with h show ?thesis by blast
      qed
    qed
    from e p l1 have wp: "w ! p = (if ?later then 0 else w1 ! p)" by simp
    from e1 p have w1p: "w1 ! p = (if ?here then 0 else weights ! p)" by simp
    from wp w1p show "w ! p = (if \<exists>i_sph i_rad. k \<le> i_sph \<and> i_sph < ?S \<and> i_rad < ?N
                        \<and> p = i_rad * ?S + i_sph
                        \<and> rows ! i_basin ! i_sph < ag_rgrid_points g ! i_rad
                   then 0 else weights ! p)"
      unfolding split by auto
  qed
  with run l l1 show ?case by simp
qed

lemma get_atom_grid_over_basin_zeroes:
  assumes "sq_r_func self = RFuncArray rows" and "sq_angular_degs self = DegsOf a"
    and "i_basin < length (sq_rad_grids self)" and "i_basin < length (sq_maximas self)"
    and "i_basin < length rows"
    and "atom_grid_of (sq_rad_grids self ! i_basin) a (sq_maximas self ! i_basin) = Inr g"
    and "uniform_shells g" and "ag_shell_size g \<le> length (rows ! i_basin)"
  shows "\<exists>w. get_atom_grid_over_basin atom_grid_of self i_basin = Inr (g\<lparr>ag_weights := w\<rparr>)
           \<and> length w = length (ag_weights g)
           \<and> (\<forall>i_rad < length (ag_rgrid_points g). \<forall>i_sph < ag_shell_size g.
                 w ! (i_rad * ag_shell_size g + i_sph) =
                   (if rows ! i_basin ! i_sph < ag_rgrid_points g ! i_rad then 0
                    else ag_weights g ! (i_rad * ag_shell_size g + i_sph)))"
proof -
  let ?S = "ag_shell_size g" and ?N = "length (ag_rgrid_points g)"
  from for_sph_effect [OF assms(7) refl, where k = 0 and idxs = "[0..<?S]", OF refl _ assms(5,8)]
  obtain w where w: "for_sph (RFuncArray rows) i_basin g [0..<?S] (ag_weights g) = Inr w"
    and l: "length w = length (ag_weights g)"
    and e: "\<forall>p < length (ag_weights g).
                 w ! p = (if \<exists>i_sph i_rad. 0 \<le> i_sph \<and> i_sph < ?S \<and> i_rad < ?N
                               \<and> p = i_rad * ?S + i_sph
                               \<and> rows ! i_basin ! i_sph < ag_rgrid_points g ! i_rad
                          then 0 else ag_weights g ! p)"
    by auto
  have run: "get_atom_grid_over_basin atom_grid_of self i_basin = Inr (g\<lparr>ag_weights := w\<rparr>)"
    using assms(1-4,6) w by (simp add: get_atom_grid_over_basin_def)
  from assms(7) have tot: "length (ag_weights g) = ?N * ?S"
    by (simp add: uniform_shells_def)
  have "\<forall>i_rad < ?N. \<forall>i_sph < ?S.
          w ! (i_rad * ?S + i_sph) =
            (if rows ! i_basin ! i_sph < ag_rgrid_points g ! i_rad then 0
             else ag_weights g ! (i_rad * ?S + i_sph))"
  proof (intro allI impI)
    fix i_rad i_sph assume r: "i_rad < ?N" and s: "i_sph < ?S"
    from shell_position_bound [OF r s] tot
    have p: "i_rad * ?S + i_sph < length (ag_weights g)" by simp
    have "(\<exists>j_sph j_rad. 0 \<le> j_sph \<and> j_sph < ?S \<and> j_rad < ?N
              \<and> i_rad * ?S + i_sph = j_rad * ?S + j_sph
              \<and> rows ! i_basin ! j_sph < ag_rgrid_points g ! j_rad)
          \<longleftrightarrow> rows ! i_basin ! i_sph < ag_rgrid_points g ! i_rad"
      using r s shell_position_unique [of i_rad ?S i_sph] by blast
    with e p show "w ! (i_rad * ?S + i_sph) =
            (if rows ! i_basin ! i_sph < ag_rgrid_points g ! i_rad then 0
             else ag_weights g ! (i_rad * ?S + i_sph))"
      by simp
  qed
  with run l show ?thesis by blast
qed

section \<open>The ray tracer at the first index and inside a beta sphere\<close>

text \<open>
  Three facts about the cases that claims C1 and C2, as amended, leave out. The subscript
  \<^verbatim>\<open>i - 1\<close> at index 0 reads the last element, so at index 0 the lower bracket radius of
  \<^verbatim>\<open>solve_for_isosurface_pt\<close> is the last radius of the grid (the test \<^verbatim>\<open>index_iso >= 0\<close>
  never fails), and a hit at the first ray sample is measured against the last sample. A
  hit that is inside a beta sphere only, but not within 0.1 of a maximum, raises
  \<^verbatim>\<open>IndexError\<close> when the gap is below \<^verbatim>\<open>bnd_err\<close>: the neighbor id is looked up among the
  maxima within 0.1.
\<close>

lemma first_index_None: "\<not> list_ex P xs \<Longrightarrow> first_index P xs = None"
  by (induction xs) simp_all

lemma py_nth_wraps: "xs \<noteq> [] \<Longrightarrow> py_nth xs (int 0 - 1) = Inr (last xs)"
  by (cases xs) (simp_all add: py_nth_def last_conv_nth nat_diff_distrib')

lemma iso_l_bnd_first_index: "rad_pts \<noteq> [] \<Longrightarrow> iso_l_bnd 0 rad_pts = Inr (last rad_pts)"
  using py_nth_wraps [of rad_pts] by (simp add: iso_l_bnd_def)

lemma ray_step_beta_sphere_only_raises:
  assumes "dens_cutoff < ray_density ! i_ray"
    and "gradient_path fuel solve_ivp (ray ! i_ray) grad_func
           (0, max (1000 * (st_rad_pts st ! i_ray)) 75) LSODA 50 200 10 0.001
           beta_sphere_maxima (Some maxima) = Some (Inr (Some y_val))"
    and "dist_maxima = map (\<lambda>m. vnorm (vsub y_val m)) other_maximas"
    and "\<not> list_ex (\<lambda>d. d < 0.1) dist_maxima"
    and "any_less_beta dist_maxima beta_sphere_others = Inr True"
    and "0 < i_ray" and "i_ray < length ray"
    and "vnorm (vsub (ray ! i_ray) (ray ! (i_ray - 1))) < bnd_err"
  shows "ray_step fuel solve_ivp arange dens_cutoff maxima grad_func other_maximas bnd_err
           beta_sphere_maxima beta_sphere_others ray ray_density st i_ray = Some (Inl IndexError)"
proof -
  have prev: "py_nth ray (int i_ray - 1) = Inr (ray ! (i_ray - 1))"
    using assms(6,7) by (simp add: py_nth_def nat_diff_distrib')
  from assms(4) have none: "first_index (\<lambda>d. d < 0.1) dist_maxima = None"
    by (rule first_index_None)
  show ?thesis
    unfolding ray_step_def
    using assms(1,2,4,5,8) prev none
    by (simp add: Let_def assms(3) [symmetric])
qed

lemma ray_step_first_sample_wraps:
  assumes "dens_cutoff < ray_density ! 0"
    and "gradient_path fuel solve_ivp (ray ! 0) grad_func
           (0, max (1000 * (st_rad_pts st ! 0)) 75) LSODA 50 200 10 0.001
           beta_sphere_maxima (Some maxima) = Some (Inr (Some y_val))"
    and "dist_maxima = map (\<lambda>m. vnorm (vsub y_val m)) other_maximas"
    and "first_index (\<lambda>d. d < 0.1) dist_maxima = Some k"
    and "ray \<noteq> []"
    and "vnorm (vsub (ray ! 0) (last ray)) < bnd_err"
  shows "ray_step fuel solve_ivp arange dens_cutoff maxima grad_func other_maximas bnd_err
           beta_sphere_maxima beta_sphere_others ray ray_density st 0 =
         Some (Inr (st\<lparr>st_found_watershed_on_ray := True,
                        st_bnd_pt := Some (vdiv (vadd (ray ! 0) (last ray)) 2),
                        st_basin_id := Some (int k + 1)\<rparr>, True))"
proof -
  from first_index_Some [OF assms(4)] have near: "list_ex (\<lambda>d. d < 0.1) dist_maxima"
    by (auto simp add: list_ex_iff)
  show ?thesis
    unfolding ray_step_def
    using assms(1,2,4,6) near py_nth_wraps [OF assms(5)]
    by (simp add: Let_def assms(3) [symmetric])
qed

end
